theory Spec2Isabelle
  imports Complex_Main "HOL-Library.Word" "HOL-Library.Sublist"
begin

section \<open>Python values and the library functions the backend calls\<close>

text \<open>
  The fields of a submitted JSON object are modelled by \<open>pyval\<close>: \<open>null\<close>, booleans,
  integers, floats and strings (nested arrays and objects as field values are outside
  the model). A Python \<open>str\<close> is represented by the list of the bytes of its UTF-8
  encoding, with a lone surrogate written as the three bytes that the same scheme
  gives for its code point; the representation is one to one, and an ASCII text is its
  own representation. Finite floats are read as the real numbers they denote. A raised
  exception is the left injection of a sum, carrying the text that \<open>str(e)\<close> would give.
\<close>

datatype pyval = PNone | PBool bool | PInt int | PFloat real | PStr string

text \<open>
  The body of a request as \<open>request.get_json(silent=True)\<close> returns it: an object, an array
  or a scalar (\<open>JValue PNone\<close> is \<open>None\<close>, which is also what a body that is not JSON gives).
\<close>

datatype json = JObject "(string \<times> pyval) list" | JArray "pyval list" | JValue pyval

type_synonym vec = "real list"
type_synonym 'a raises = "string + 'a"

text \<open>A float that may be NaN (what numpy's mean gives on an empty array).\<close>

datatype npfloat = Finite real | NaN

text \<open>
  Behaviour of the Python runtime and of third-party libraries that the repository only
  calls: the formatting of a float, \<open>float\<close> on a string and on an integer (\<open>None\<close> when it
  raises: \<open>ValueError\<close>, \<open>OverflowError\<close>), the \<open>.4f\<close> format, \<open>json.dumps(data,
  sort_keys=True, default=str)\<close> (whose result is ASCII), the text of the
  \<open>UnicodeEncodeError\<close> that \<open>encode\<close> raises on a string, the text of the \<open>TypeError\<close> that
  the lookup of a field raises on a body that is not an object, \<open>hashlib.sha256\<close> (the
  digest as a 256-bit number) and TenSEAL's \<open>bfv_vector\<close> (which may raise). They are
  parameters.
\<close>

record pylib =
  float_repr :: "real \<Rightarrow> string"
  float_of_str :: "string \<Rightarrow> real option"
  float_of_int :: "int \<Rightarrow> real option"
  format_4f :: "real \<Rightarrow> string"
  json_dumps :: "json \<Rightarrow> string"
  encode_error :: "string \<Rightarrow> string"
  type_error :: "json \<Rightarrow> string"
  sha256 :: "string \<Rightarrow> 256 word"
  bfv_vector :: "string \<Rightarrow> nat list \<Rightarrow> string raises"

definition hexdigits :: string where
  "hexdigits = ''0123456789abcdef''"

fun dec_digits :: "nat \<Rightarrow> string" where
  "dec_digits n =
     (if n < 10 then [hexdigits ! n] else dec_digits (n div 10) @ [hexdigits ! (n mod 10)])"

declare dec_digits.simps [simp del]

definition str_int :: "int \<Rightarrow> string" where
  "str_int i = (if i < 0 then CHR ''-'' # dec_digits (nat (- i)) else dec_digits (nat i))"

text \<open>\<open>str(v)\<close>.\<close>

fun py_str :: "pylib \<Rightarrow> pyval \<Rightarrow> string" where
  "py_str L PNone = ''None''"
| "py_str L (PBool b) = (if b then ''True'' else ''False'')"
| "py_str L (PInt i) = str_int i"
| "py_str L (PFloat r) = float_repr L r"
| "py_str L (PStr s) = s"

text \<open>\<open>bool(v)\<close>, the truth value tested by \<open>if v\<close> and \<open>not v\<close>.\<close>

fun py_truthy :: "pyval \<Rightarrow> bool" where
  "py_truthy PNone = False"
| "py_truthy (PBool b) = b"
| "py_truthy (PInt i) = (i \<noteq> 0)"
| "py_truthy (PFloat r) = (r \<noteq> 0)"
| "py_truthy (PStr s) = (s \<noteq> [])"

fun json_truthy :: "json \<Rightarrow> bool" where
  "json_truthy (JObject data) = (data \<noteq> [])"
| "json_truthy (JArray xs) = (xs \<noteq> [])"
| "json_truthy (JValue v) = py_truthy v"

text \<open>
  \<open>float(v)\<close>; \<open>None\<close> when it raises (\<open>TypeError\<close> on \<open>None\<close>, \<open>ValueError\<close> on a string that
  is not a number, \<open>OverflowError\<close> on an integer beyond the range of a float).
\<close>

fun py_float :: "pylib \<Rightarrow> pyval \<Rightarrow> real option" where
  "py_float L PNone = None"
| "py_float L (PBool b) = Some (if b then 1 else 0)"
| "py_float L (PInt i) = float_of_int L i"
| "py_float L (PFloat r) = Some r"
| "py_float L (PStr s) = float_of_str L s"

text \<open>\<open>a == b\<close>: numbers (booleans included) compare by value across types.\<close>

fun py_num :: "pyval \<Rightarrow> real option" where
  "py_num (PBool b) = Some (if b then 1 else 0)"
| "py_num (PInt i) = Some (of_int i)"
| "py_num (PFloat r) = Some r"
| "py_num v = None"

fun py_eq :: "pyval \<Rightarrow> pyval \<Rightarrow> bool" where
  "py_eq PNone PNone = True"
| "py_eq (PStr s) (PStr t) = (s = t)"
| "py_eq a b = (case (py_num a, py_num b) of (Some x, Some y) \<Rightarrow> x = y | _ \<Rightarrow> False)"

text \<open>
  \<open>s.strip()\<close> removes the characters for which \<open>str.isspace\<close> holds from both ends:
  U+0009 to U+000D, U+001C to U+0020, U+0085, U+00A0, U+1680, U+2000 to U+200A, U+2028,
  U+2029, U+202F, U+205F and U+3000. \<open>space_seqs\<close> lists their UTF-8 encodings.
\<close>

definition space_seqs :: "string list" where
  "space_seqs =
     map (\<lambda>c. [c])
       [CHR 0x09, CHR 0x0A, CHR 0x0B, CHR 0x0C, CHR 0x0D,
        CHR 0x1C, CHR 0x1D, CHR 0x1E, CHR 0x1F, CHR 0x20]
     @ [[CHR 0xC2, CHR 0x85], [CHR 0xC2, CHR 0xA0], [CHR 0xE1, CHR 0x9A, CHR 0x80]]
     @ map (\<lambda>c. [CHR 0xE2, CHR 0x80, c])
         [CHR 0x80, CHR 0x81, CHR 0x82, CHR 0x83, CHR 0x84, CHR 0x85, CHR 0x86, CHR 0x87,
          CHR 0x88, CHR 0x89, CHR 0x8A, CHR 0xA8, CHR 0xA9, CHR 0xAF]
     @ [[CHR 0xE2, CHR 0x81, CHR 0x9F], [CHR 0xE3, CHR 0x80, CHR 0x80]]"

function lstrip :: "string \<Rightarrow> string" where
  "lstrip s =
     (case find (\<lambda>w. w \<noteq> [] \<and> prefix w s) space_seqs of
        None \<Rightarrow> s
      | Some w \<Rightarrow> lstrip (drop (length w) s))"
  by pat_completeness auto
termination
proof (relation "measure length")
  show "wf (measure length)" by simp
next
  fix s w
  assume "find (\<lambda>w. w \<noteq> [] \<and> prefix w s) space_seqs = Some w"
  then have "w \<noteq> [] \<and> prefix w s"
    by (auto simp: find_Some_iff)
  then have "length (drop (length w) s) < length s"
    by (cases s) (auto simp: prefix_def)
  then show "(drop (length w) s, s) \<in> measure length" by simp
qed

function rstrip :: "string \<Rightarrow> string" where
  "rstrip s =
     (case find (\<lambda>w. w \<noteq> [] \<and> suffix w s) space_seqs of
        None \<Rightarrow> s
      | Some w \<Rightarrow> rstrip (take (length s - length w) s))"
  by pat_completeness auto
termination
proof (relation "measure length")
  show "wf (measure length)" by simp
next
  fix s w
  assume "find (\<lambda>w. w \<noteq> [] \<and> suffix w s) space_seqs = Some w"
  then have "w \<noteq> [] \<and> suffix w s"
    by (auto simp: find_Some_iff)
  then have "length (take (length s - length w) s) < length s"
    by (cases s) (auto simp: suffix_def)
  then show "(take (length s - length w) s, s) \<in> measure length" by simp
qed

declare lstrip.simps [simp del]
declare rstrip.simps [simp del]

definition py_strip :: "string \<Rightarrow> string" where
  "py_strip s = rstrip (lstrip s)"

text \<open>
  \<open>s.encode()\<close>: UTF-8 with the strict error handler. The bytes are the representation
  itself, and the call raises \<open>UnicodeEncodeError\<close> (\<open>None\<close>) exactly when the string holds
  a surrogate, U+D800 to U+DFFF: the byte \<open>ED\<close> followed by a byte from \<open>A0\<close> on.
\<close>

fun has_surrogate :: "string \<Rightarrow> bool" where
  "has_surrogate (a # b # cs) =
     ((a = CHR 0xED \<and> (of_char b :: nat) \<ge> 0xA0) \<or> has_surrogate (b # cs))"
| "has_surrogate cs = False"

definition encode :: "string \<Rightarrow> string option" where
  "encode s = (if has_surrogate s then None else Some s)"

text \<open>\<open>hexdigest()\<close>: 64 lower-case hexadecimal digits, most significant first.\<close>

primrec hex_digits :: "nat \<Rightarrow> nat \<Rightarrow> string" where
  "hex_digits 0 x = []"
| "hex_digits (Suc k) x = hex_digits k (x div 16) @ [hexdigits ! (x mod 16)]"

definition hexdigest :: "256 word \<Rightarrow> string" where
  "hexdigest w = hex_digits 64 (unat w)"

text \<open>
  \<open>int(s, 16)\<close> on a string of hexadecimal digits; \<open>None\<close> is \<open>ValueError\<close>. The only
  call site passes a digest, so signs, prefixes and underscores are not modelled.
\<close>

definition hex_val :: "char \<Rightarrow> nat option" where
  "hex_val c =
     (let n = (of_char c :: nat)
      in if 48 \<le> n \<and> n \<le> 57 then Some (n - 48)
         else if 97 \<le> n \<and> n \<le> 102 then Some (n - 87)
         else if 65 \<le> n \<and> n \<le> 70 then Some (n - 55)
         else None)"

fun int16_acc :: "nat \<Rightarrow> string \<Rightarrow> nat option" where
  "int16_acc acc [] = Some acc"
| "int16_acc acc (c # cs) =
     (case hex_val c of None \<Rightarrow> None | Some d \<Rightarrow> int16_acc (16 * acc + d) cs)"

definition py_int16 :: "string \<Rightarrow> nat option" where
  "py_int16 s = (if s = [] then None else int16_acc 0 s)"

section \<open>The identity codec (patient\_encryption\_with\_PSI.py)\<close>

text \<open>
  \<^verbatim>\<open>def hash_text(text): return hashlib.sha256(str(text).encode()).hexdigest()\<close>
  The call raises when the text cannot be encoded.
\<close>

definition hash_text :: "pylib \<Rightarrow> pyval \<Rightarrow> string raises" where
  "hash_text L text =
     (case encode (py_str L text) of
        None \<Rightarrow> Inl (encode_error L (py_str L text))
      | Some bytes \<Rightarrow> Inr (hexdigest (sha256 L bytes)))"

text \<open>
  \<open>encrypt_vector(context, value)\<close>: hashes \<open>str(value)\<close>, reads the digest as a base-16
  integer, reduces it modulo \<open>plain_modulus = 65537\<close> and encrypts the one-element
  vector. Every exception is caught and turned into \<open>None\<close>.
\<close>

definition plain_modulus :: nat where
  "plain_modulus = 65537"

definition encrypt_vector :: "pylib \<Rightarrow> string \<Rightarrow> pyval \<Rightarrow> string option" where
  "encrypt_vector L context v =
     (case hash_text L (PStr (py_str L v)) of
        Inl e \<Rightarrow> None
      | Inr digest \<Rightarrow>
          (case py_int16 digest of
             None \<Rightarrow> None
           | Some n \<Rightarrow>
               (case bfv_vector L context [n mod plain_modulus] of
                  Inl e \<Rightarrow> None
                | Inr encrypted_val \<Rightarrow> Some encrypted_val)))"

section \<open>The linkage engine (test\_psi\_encrypted.py, encrypt\_and\_upload.py)\<close>

text \<open>
  \<^verbatim>\<open>common_hashed_nics = set(hashed_nics_a).intersection(set(hashed_nics_b))\<close>
\<close>

definition common_hashed_nics :: "string list \<Rightarrow> string list \<Rightarrow> string set" where
  "common_hashed_nics hashed_nics_a hashed_nics_b = set hashed_nics_a \<inter> set hashed_nics_b"

section \<open>Models, configuration and the store\<close>

text \<open>
  The metadata, models and scalers are loaded from files that are not part of the
  sources, so they are fields of an environment. A scaler or a model is a function on
  feature vectors that may raise. \<open>WithProba\<close> is a model with \<open>predict_proba\<close> (the
  probability of the positive class), \<open>LabelOnly\<close> one with \<open>predict\<close> only. An encoder
  of the poisoning metadata is a JSON object, a JSON array or something else.
\<close>

datatype classifier = WithProba "vec \<Rightarrow> real raises" | LabelOnly "vec \<Rightarrow> int raises"

datatype encoder = EncDict "(string \<times> pyval) list" | EncList "pyval list" | EncOther

datatype event_type =
  poisoning_check | poisoning_check_error
  | extraction_check | extraction_check_error
  | prediction_success | prediction_error
  | record_created | record_creation_error
  | system_error

text \<open>
  \<open>protection_scaler\<close>, \<open>protection_threshold\<close> and \<open>n_features_in\<close> are \<open>scaler\<close>,
  \<open>threshold\<close> and the scaler's optional attribute \<open>n_features_in_\<close> of protection.py;
  \<open>scaler\<close> and \<open>model\<close> are those of the prediction bundle in app.py. \<open>load_context\<close>
  is the outcome of reading the public key file. The last four fields say how the
  store behaves during the request: whether the insert into \<open>security_logs\<close> for an
  event succeeds, what \<open>find_one_and_update\<close> raises (if anything), whether the insert
  into \<open>patients_plain\<close> succeeds (it does not when the database handle is missing or
  the insert raises), and the clock.
\<close>

record env =
  lib :: pylib
  feature_order :: "string list"
  encoders :: "(string \<times> encoder) list"
  poisoning_scaler :: "(vec \<Rightarrow> vec raises) option"
  poisoning_model :: classifier
  poisoning_threshold :: real
  n_features_in :: "nat option"
  protection_scaler :: "vec \<Rightarrow> vec raises"
  autoencoder :: "vec \<Rightarrow> vec raises"
  protection_threshold :: real
  scaler :: "(vec \<Rightarrow> vec raises) option"
  model :: classifier
  load_context :: "string raises"
  audit_insert_ok :: "event_type \<Rightarrow> bool"
  patients_update_error :: "string option"
  plain_insert_ok :: bool
  utcnow :: nat

record medical =
  gender :: pyval
  age :: pyval
  hypertension :: pyval
  heart_disease :: pyval
  bmi :: pyval
  HbA1c_level :: pyval
  blood_glucose_level :: pyval
  diabetes :: int

text \<open>The dictionary \<open>record\<close> that \<open>create_patient\<close> hands to the codec.\<close>

record patient_record =
  NIC :: pyval
  Name :: pyval
  Address :: pyval
  record_medical :: medical

text \<open>A document of the collection \<open>patients\<close> (the medical fields stay in plaintext).\<close>

record patient_document =
  NIC_Hashed :: string
  NIC_Encrypted :: string
  Name_Encrypted :: string
  Address_Encrypted :: string
  document_medical :: medical

text \<open>A document of \<open>patients_plain\<close>: \<open>NIC_Hashed\<close>, \<open>name\<close>, \<open>diabetes\<close>, \<open>created_at\<close>.\<close>

record plain_summary =
  summary_NIC_Hashed :: "string option"
  summary_name :: pyval
  summary_diabetes :: int
  summary_created_at :: nat

record log_entry =
  timestamp :: nat
  input_hash :: string
  mse :: npfloat
  is_attack :: bool
  event_type :: event_type
  additional_info :: "(string \<times> pyval) list"

record db =
  patients :: "patient_document list"
  patients_plain :: "plain_summary list"
  security_logs :: "log_entry list"

record response =
  status :: nat
  body :: "(string \<times> pyval) list"

text \<open>
  The stages of the pipeline. The endpoint's model returns, besides the response and the
  store, the list of the stages it entered, in order: \<open>Poisoning\<close> stands for the call of
  \<open>_run_poisoning_check\<close>, \<open>Extraction\<close> for the call of \<open>detect_attack\<close>, \<open>Prediction\<close>
  for the \<open>try\<close> block of step 3 and \<open>Persistence\<close> for the call of
  \<open>update_patient_record\<close>.
\<close>

datatype stage = Poisoning | Extraction | Prediction | Persistence

section \<open>The audit log (app.py, log\_security\_event)\<close>

text \<open>
  The entry is inserted into \<open>security_logs\<close>; any exception of the insert (and an
  unavailable database handle) is caught inside the function, which then returns
  without an entry and without raising. The text that \<open>json.dumps\<close> gives is ASCII, so
  its encoding is the text itself and cannot fail.
\<close>

definition log_security_event ::
  "env \<Rightarrow> db \<Rightarrow> json \<Rightarrow> npfloat \<Rightarrow> bool \<Rightarrow> event_type
     \<Rightarrow> (string \<times> pyval) list \<Rightarrow> db" where
  "log_security_event E d input_data mse_score attack ev info =
     (if audit_insert_ok E ev
      then d\<lparr>security_logs := security_logs d @
              [\<lparr>timestamp = utcnow E,
                input_hash = hexdigest (sha256 (lib E) (json_dumps (lib E) input_data)),
                mse = mse_score,
                is_attack = attack,
                event_type = ev,
                additional_info = info\<rparr>]\<rparr>
      else d)"

section \<open>The gates\<close>

text \<open>\<open>data.get(k, dflt)\<close>, the lookup with a default.\<close>

definition dict_get :: "(string \<times> pyval) list \<Rightarrow> string \<Rightarrow> pyval \<Rightarrow> pyval" where
  "dict_get data k dflt = (case map_of data k of None \<Rightarrow> dflt | Some v \<Rightarrow> v)"

text \<open>\<open>enc.index(val)\<close>; \<open>None\<close> is \<open>ValueError\<close>.\<close>

fun list_index :: "pyval list \<Rightarrow> pyval \<Rightarrow> nat option" where
  "list_index [] v = None"
| "list_index (x # xs) v = (if py_eq x v then Some 0 else map_option Suc (list_index xs v))"

text \<open>
  One round of the loop of \<open>_run_poisoning_check\<close>: the value of the column (0 when
  absent), sent through the column's encoder when there is one (0 for an unknown
  category), then \<open>float\<close> with 0.0 for whatever does not convert. The keys of a JSON
  object are strings, so only a string can be found in a dictionary encoder.
\<close>

definition encode_feature :: "env \<Rightarrow> (string \<times> pyval) list \<Rightarrow> string \<Rightarrow> real" where
  "encode_feature E feature_dict col =
     (let val = dict_get feature_dict col (PInt 0);
          val' =
            (case map_of (encoders E) col of
               None \<Rightarrow> val
             | Some (EncDict enc) \<Rightarrow>
                 (case val of PStr k \<Rightarrow> dict_get enc k (PInt 0) | _ \<Rightarrow> PInt 0)
             | Some (EncList enc) \<Rightarrow>
                 (case list_index enc val of None \<Rightarrow> PInt 0 | Some i \<Rightarrow> PInt (int i))
             | Some EncOther \<Rightarrow> val)
      in case py_float (lib E) val' of None \<Rightarrow> 0 | Some x \<Rightarrow> x)"

text \<open>
  \<open>_run_poisoning_check(feature_dict)\<close>: \<open>True\<close> when poisoning is suspected. Every
  exception inside is re-raised as \<open>RuntimeError(f"Poisoning check failed: {e}")\<close>.
\<close>

definition run_poisoning_check :: "env \<Rightarrow> (string \<times> pyval) list \<Rightarrow> bool raises" where
  "run_poisoning_check E feature_dict =
     (let features = map (encode_feature E feature_dict) (feature_order E)
      in case (case poisoning_scaler E of None \<Rightarrow> Inr features | Some t \<Rightarrow> t features) of
           Inl e \<Rightarrow> Inl (''Poisoning check failed: '' @ e)
         | Inr X \<Rightarrow>
             (case (case poisoning_model E of
                      WithProba predict_proba \<Rightarrow> predict_proba X
                    | LabelOnly predict \<Rightarrow> map_sum id real_of_int (predict X)) of
                Inl e \<Rightarrow> Inl (''Poisoning check failed: '' @ e)
              | Inr prob \<Rightarrow> Inr (prob > poisoning_threshold E)))"

text \<open>\<open>_coerce_feature(name, val)\<close>; both failures are \<open>ValueError\<close>.\<close>

definition coerce_feature :: "pylib \<Rightarrow> string \<Rightarrow> pyval \<Rightarrow> real raises" where
  "coerce_feature L name val =
     (if val = PNone then Inl (''Missing value for '' @ name)
      else case py_float L val of
             Some x \<Rightarrow> Inr x
           | None \<Rightarrow> Inl (''Invalid value for '' @ name @ '': '' @ py_str L val))"

text \<open>
  \<open>[_coerce_feature(f, data[f]) for f in feature_order]\<close>: the first failure ends the
  comprehension; \<open>data[f]\<close> raises \<open>KeyError\<close> for a key that is absent.
\<close>

fun coerce_all :: "pylib \<Rightarrow> (string \<times> pyval) list \<Rightarrow> string list \<Rightarrow> vec raises" where
  "coerce_all L data [] = Inr []"
| "coerce_all L data (f # fs) =
     (case map_of data f of
        None \<Rightarrow> Inl ([CHR 0x27] @ f @ [CHR 0x27])
      | Some v \<Rightarrow>
          (case coerce_feature L f v of
             Inl e \<Rightarrow> Inl e
           | Inr x \<Rightarrow> (case coerce_all L data fs of Inl e \<Rightarrow> Inl e | Inr xs \<Rightarrow> Inr (x # xs))))"

text \<open>
  \<open>detect_attack(input_array)\<close> of protection.py: the mean squared difference between
  the scaled input and the autoencoder's reconstruction of it, compared with the
  threshold. numpy subtracts two rows of the same length element by element, stretches
  a row of length one to the length of the other, and raises \<open>ValueError\<close> otherwise. The
  mean of no elements is NaN, which is not above any threshold.
\<close>

definition broadcast_diff :: "vec \<Rightarrow> vec \<Rightarrow> vec option" where
  "broadcast_diff a b =
     (if length a = length b then Some (map (\<lambda>(u, v). u - v) (zip a b))
      else if length b = 1 then Some (map (\<lambda>u. u - hd b) a)
      else if length a = 1 then Some (map (\<lambda>v. hd a - v) b)
      else None)"

definition np_mean :: "vec \<Rightarrow> npfloat" where
  "np_mean xs = (if xs = [] then NaN else Finite (sum_list xs / real (length xs)))"

fun above :: "npfloat \<Rightarrow> real \<Rightarrow> bool" where
  "above (Finite r) t = (r > t)"
| "above NaN t = False"

definition detect_attack :: "env \<Rightarrow> vec \<Rightarrow> (bool \<times> npfloat) raises" where
  "detect_attack E x =
     (let n_expected = (case n_features_in E of None \<Rightarrow> length x | Some n \<Rightarrow> n)
      in if length x \<noteq> n_expected
         then Inl (''Protection scaler expects '' @ str_int (int n_expected)
                   @ '' features, got '' @ str_int (int (length x)) @ ''.'')
         else case protection_scaler E x of
                Inl e \<Rightarrow> Inl e
              | Inr x_scaled \<Rightarrow>
                  (case autoencoder E x_scaled of
                     Inl e \<Rightarrow> Inl e
                   | Inr recon \<Rightarrow>
                       (case broadcast_diff x_scaled recon of
                          None \<Rightarrow>
                            Inl (''operands could not be broadcast together with shapes (1,''
                                 @ str_int (int (length x_scaled)) @ '') (1,''
                                 @ str_int (int (length recon)) @ '') '')
                        | Some diff \<Rightarrow>
                            (let mse = np_mean (map (\<lambda>u. u ^ 2) diff)
                             in Inr (above mse (protection_threshold E), mse)))))"

section \<open>Persistence (patient\_encryption\_with\_PSI.py, update\_patient\_record)\<close>

text \<open>
  \<open>find_one_and_update({"NIC_Hashed": h}, {"$set": doc}, upsert=True)\<close>: the first
  document with that key gets every field of \<open>doc\<close>; without such a document \<open>doc\<close>
  is inserted.
\<close>

fun upsert :: "string \<Rightarrow> patient_document \<Rightarrow> patient_document list \<Rightarrow> patient_document list" where
  "upsert h doc [] = [doc]"
| "upsert h doc (x # xs) = (if NIC_Hashed x = h then doc # xs else x # upsert h doc xs)"

text \<open>
  \<open>update_patient_record(record)\<close>. Loading the context, hashing the NIC and the
  update of the collection may raise. When one of the three ciphertexts is \<open>None\<close> the
  function prints a message and returns normally, without writing.
\<close>

definition update_patient_record :: "env \<Rightarrow> db \<Rightarrow> patient_record \<Rightarrow> db raises" where
  "update_patient_record E d r =
     (case load_context E of
        Inl e \<Rightarrow> Inl e
      | Inr context \<Rightarrow>
          (let nic_plain = PStr (py_str (lib E) (NIC r))
           in case hash_text (lib E) nic_plain of
                Inl e \<Rightarrow> Inl e
              | Inr nic_hashed \<Rightarrow>
                  (let encrypted_nic = encrypt_vector (lib E) context nic_plain;
                       encrypted_name = encrypt_vector (lib E) context (Name r);
                       encrypted_address = encrypt_vector (lib E) context (Address r)
                   in case (encrypted_name, encrypted_address, encrypted_nic) of
                        (Some en, Some ea, Some ei) \<Rightarrow>
                          (case patients_update_error E of
                             Some e \<Rightarrow> Inl e
                           | None \<Rightarrow>
                               Inr (d\<lparr>patients :=
                                      upsert nic_hashed
                                        \<lparr>NIC_Hashed = nic_hashed,
                                          NIC_Encrypted = ei,
                                          Name_Encrypted = en,
                                          Address_Encrypted = ea,
                                          document_medical = record_medical r\<rparr>
                                        (patients d)\<rparr>))
                      | _ \<Rightarrow> Inr d)))"

section \<open>The intake endpoint (app.py, create\_patient)\<close>

definition required :: "string list" where
  "required = [''NIC'', ''Name'', ''gender'', ''age'', ''hypertension'',
               ''heart_disease'', ''bmi'', ''HbA1c_level'', ''blood_glucose_level'']"

fun join :: "string \<Rightarrow> string list \<Rightarrow> string" where
  "join sep [] = []"
| "join sep [x] = x"
| "join sep (x # y # ys) = x @ sep @ join sep (y # ys)"

definition error_response :: "nat \<Rightarrow> string \<Rightarrow> response" where
  "error_response code msg = \<lparr>status = code, body = [(''ok'', PBool False), (''error'', PStr msg)]\<rparr>"

definition prediction_tag :: "int \<Rightarrow> pyval" where
  "prediction_tag pred = PStr (if pred = 1 then ''diabetic'' else ''non_diabetic'')"

text \<open>
  Step 4 and the plaintext summary. \<open>build_record\<close> is the dictionary \<open>record\<close> built from
  the request and the label. The summary's key is computed inline in the
  endpoint, under the guard \<open>if record.get("NIC")\<close>; \<open>summary_key\<close> is \<open>None\<close> when that
  computation raises. An exception in the block of the summary is logged and otherwise
  ignored.
\<close>

definition summary_key :: "pylib \<Rightarrow> pyval \<Rightarrow> string option option" where
  "summary_key L nic =
     (if py_truthy nic
      then (case encode (py_str L nic) of
              None \<Rightarrow> None
            | Some bytes \<Rightarrow> Some (Some (hexdigest (sha256 L bytes))))
      else Some None)"

definition build_record :: "(string \<times> pyval) list \<Rightarrow> int \<Rightarrow> patient_record" where
  "build_record data pred =
     \<lparr>NIC = dict_get data ''NIC'' PNone,
      Name = dict_get data ''Name'' PNone,
      Address = dict_get data ''Address'' (PStr []),
      record_medical =
        \<lparr>gender = dict_get data ''gender'' PNone,
          age = dict_get data ''age'' PNone,
          hypertension = dict_get data ''hypertension'' PNone,
          heart_disease = dict_get data ''heart_disease'' PNone,
          bmi = dict_get data ''bmi'' PNone,
          HbA1c_level = dict_get data ''HbA1c_level'' PNone,
          blood_glucose_level = dict_get data ''blood_glucose_level'' PNone,
          diabetes = pred\<rparr>\<rparr>"

definition save_record ::
  "env \<Rightarrow> db \<Rightarrow> (string \<times> pyval) list \<Rightarrow> int \<Rightarrow> response \<times> db" where
  "save_record E d data pred =
     (let r = build_record data pred
      in case update_patient_record E d r of
           Inl e \<Rightarrow>
             (error_response 500 ''Failed to save record'',
              log_security_event E d (JObject data) (Finite 0) False record_creation_error
                [(''error'', PStr e)])
         | Inr d1 \<Rightarrow>
             (let d2 = log_security_event E d1 (JObject data) (Finite 0) False record_created
                         [(''patient_name'', Name r), (''prediction'', prediction_tag pred)];
                  d3 = (case summary_key (lib E) (NIC r) of
                          None \<Rightarrow> d2
                        | Some nic_hash \<Rightarrow>
                            if plain_insert_ok E
                            then d2\<lparr>patients_plain := patients_plain d2 @
                                     [\<lparr>summary_NIC_Hashed = nic_hash,
                                       summary_name = Name r,
                                       summary_diabetes = pred,
                                       summary_created_at = utcnow E\<rparr>]\<rparr>
                            else d2)
              in (\<lparr>status = 201,
                   body = [(''ok'', PBool True),
                           (''message'', PStr ''Record saved successfully''),
                           (''prediction'',
                            PStr (if pred = 1 then ''Diabetic'' else ''Non-Diabetic''))]\<rparr>,
                  d3)))"

text \<open>
  The body of the \<open>try\<close> of step 3: the stored scaler (when there is one), then the
  label, \<open>int(prob >= 0.5)\<close> for a model with \<open>predict_proba\<close> and the model's own label
  otherwise. The second component is \<open>prob\<close> when it was computed.
\<close>

definition predict :: "env \<Rightarrow> vec \<Rightarrow> (int \<times> real option) raises" where
  "predict E x =
     (case (case scaler E of None \<Rightarrow> Inr x | Some t \<Rightarrow> t x) of
        Inl e \<Rightarrow> Inl e
      | Inr xs \<Rightarrow>
          (case model E of
             WithProba predict_proba \<Rightarrow>
               (case predict_proba xs of
                  Inl e \<Rightarrow> Inl e
                | Inr prob \<Rightarrow> Inr (if prob \<ge> 0.5 then 1 else 0, Some prob))
           | LabelOnly predict_label \<Rightarrow>
               (case predict_label xs of Inl e \<Rightarrow> Inl e | Inr l \<Rightarrow> Inr (l, None))))"

definition prediction_step ::
  "env \<Rightarrow> db \<Rightarrow> (string \<times> pyval) list \<Rightarrow> vec \<Rightarrow> npfloat
     \<Rightarrow> response \<times> db \<times> stage list" where
  "prediction_step E d data x mse_v =
     (case predict E x of
        Inl e \<Rightarrow>
          (error_response 500 ''Prediction failed'',
           log_security_event E d (JObject data) (Finite 0) False prediction_error
             [(''error'', PStr e)],
           [Prediction])
      | Inr (pred, prob) \<Rightarrow>
          (let d1 = log_security_event E d (JObject data) mse_v False prediction_success
                      [(''prediction'', prediction_tag pred),
                       (''probability'', (case prob of None \<Rightarrow> PNone | Some p \<Rightarrow> PFloat p))]
           in case save_record E d1 data pred of
                (resp, d2) \<Rightarrow> (resp, d2, [Prediction, Persistence])))"

text \<open>
  Step 2. The vector is built outside the inner \<open>try\<close>, so a failure of the coercion
  reaches the handler at the end of the function (event \<open>system_error\<close>, generic 500).
  \<open>mse_text\<close> and \<open>mse_value\<close> are \<open>f"{float(mse):.4f}"\<close> and \<open>float(mse)\<close> in the answer
  to a detected attack; the error is finite there, since NaN is not above a threshold.
\<close>

definition mse_text :: "pylib \<Rightarrow> npfloat \<Rightarrow> string" where
  "mse_text L m = (case m of Finite r \<Rightarrow> format_4f L r | NaN \<Rightarrow> ''nan'')"

definition mse_value :: "npfloat \<Rightarrow> pyval" where
  "mse_value m = (case m of Finite r \<Rightarrow> PFloat r | NaN \<Rightarrow> PNone)"

definition extraction_step ::
  "env \<Rightarrow> db \<Rightarrow> (string \<times> pyval) list \<Rightarrow> response \<times> db \<times> stage list" where
  "extraction_step E d data =
     (case coerce_all (lib E) data (feature_order E) of
        Inl e \<Rightarrow>
          (error_response 500 ''Internal server error'',
           log_security_event E d (JObject data) (Finite 0) False system_error
             [(''error'', PStr e)],
           [])
      | Inr x \<Rightarrow>
          (case detect_attack E x of
             Inl e \<Rightarrow>
               (error_response 500 ''Extraction check failed'',
                log_security_event E d (JObject data) (Finite 0) True extraction_check_error
                  [(''error'', PStr e)],
                [Extraction])
           | Inr (attack, mse_v) \<Rightarrow>
               (let d1 = log_security_event E d (JObject data) mse_v attack extraction_check
                           [(''detection_threshold'', PStr ''auto'')]
                in if attack
                   then (\<lparr>status = 403,
                          body = [(''ok'', PBool False),
                                  (''error'', PStr ''Model extraction attack detected''),
                                  (''alert'',
                                   PStr (''Potential model extraction attempt detected (MSE: ''
                                         @ mse_text (lib E) mse_v @ ''). Access denied.'')),
                                  (''mse'', mse_value mse_v)]\<rparr>,
                         d1, [Extraction])
                   else case prediction_step E d1 data x mse_v of
                          (resp, d2, tr) \<Rightarrow> (resp, d2, Extraction # tr))))"

text \<open>
  The check of the required fields,
  \<^verbatim>\<open>missing = [f for f in required if f not in data or str(data[f]).strip() == ""]\<close>
  on an object.
\<close>

definition missing_fields :: "pylib \<Rightarrow> (string \<times> pyval) list \<Rightarrow> string list" where
  "missing_fields L data =
     filter (\<lambda>f. case map_of data f of None \<Rightarrow> True | Some v \<Rightarrow> py_strip (py_str L v) = [])
       required"

text \<open>
  The same check on a truthy body that is not an object raises \<open>TypeError\<close> at the first
  lookup that goes wrong: a number or \<open>true\<close> cannot be searched at all; a string can (for
  a substring), an array can (for an element), and \<open>data[f]\<close> raises on both as soon as a
  required name is found. When nothing raises, every required field is missing.
\<close>

fun lookup_raises :: "json \<Rightarrow> bool" where
  "lookup_raises (JObject data) = False"
| "lookup_raises (JArray xs) = list_ex (\<lambda>f. list_ex (\<lambda>x. py_eq x (PStr f)) xs) required"
| "lookup_raises (JValue (PStr s)) = list_ex (\<lambda>f. sublist f s) required"
| "lookup_raises (JValue v) = True"

text \<open>
  \<open>create_patient\<close> on the body of the request. The result is the response, the store
  after the request, and the stages entered, in order. An exception that no inner
  handler catches reaches the handler at the end of the function: event
  \<open>system_error\<close>, generic 500.
\<close>

definition create_patient :: "env \<Rightarrow> db \<Rightarrow> json \<Rightarrow> response \<times> db \<times> stage list" where
  "create_patient E d request_json =
     (case request_json of
        JObject data \<Rightarrow>
          (if data = [] then (error_response 400 ''Invalid or missing JSON body'', d, [])
           else if missing_fields (lib E) data \<noteq> []
           then (error_response 400
                   (''Missing fields: '' @ join '', '' (missing_fields (lib E) data)), d, [])
           else case run_poisoning_check E data of
                  Inl e \<Rightarrow>
                    (error_response 500 (''Poisoning check failed: '' @ e),
                     log_security_event E d (JObject data) (Finite 0) True poisoning_check_error
                       [(''error'', PStr e)],
                     [Poisoning])
                | Inr poisoning_flag \<Rightarrow>
                    (let d1 = log_security_event E d (JObject data) (Finite 0) poisoning_flag
                                poisoning_check
                                [(''threshold'', PFloat (poisoning_threshold E))]
                     in if poisoning_flag
                        then (\<lparr>status = 403,
                               body = [(''ok'', PBool False),
                                       (''error'', PStr ''Model poisoning detected''),
                                       (''alert'',
                                        PStr (''Suspicious data patterns detected. This submission ''
                                              @ ''has been blocked for security reasons.''))]\<rparr>,
                              d1, [Poisoning])
                        else case extraction_step E d1 data of
                               (resp, d2, tr) \<Rightarrow> (resp, d2, Poisoning # tr)))
      | other \<Rightarrow>
          (if \<not> json_truthy other
           then (error_response 400 ''Invalid or missing JSON body'', d, [])
           else if lookup_raises other
           then (error_response 500 ''Internal server error'',
                 log_security_event E d other (Finite 0) False system_error
                   [(''error'', PStr (type_error (lib E) other))],
                 [])
           else (error_response 400 (''Missing fields: '' @ join '', '' required), d, [])))"

section \<open>Sample configurations and requests\<close>

text \<open>
  A configuration for running the endpoint on concrete requests. The library functions
  are stand-ins: \<open>sample_digest\<close> takes the place of SHA-256, the float parser accepts
  unsigned decimal integers only, integers up to \<open>2 ^ 53\<close> in size convert to floats
  (exactly, as in Python) and larger ones are refused, the texts of the library's
  exceptions are fixed, and \<open>bfv_vector\<close> returns a fixed ciphertext. No statement below
  depends on the digest's values, on the float formatting or on those texts.
\<close>

definition sample_digest :: "string \<Rightarrow> 256 word" where
  "sample_digest s = of_nat (sum_list (map of_char s))"

definition is_digit :: "char \<Rightarrow> bool" where
  "is_digit c = (48 \<le> (of_char c :: nat) \<and> (of_char c :: nat) \<le> 57)"

definition digits_float :: "string \<Rightarrow> real option" where
  "digits_float s =
     (if s \<noteq> [] \<and> list_all is_digit s
      then Some (real (foldl (\<lambda>a c. 10 * a + (of_char c - 48)) 0 s))
      else None)"

definition sample_lib :: pylib where
  "sample_lib =
     \<lparr>float_repr = (\<lambda>r. ''0.0''),
      float_of_str = digits_float,
      float_of_int = (\<lambda>i. if \<bar>i\<bar> \<le> 2 ^ 53 then Some (of_int i) else None),
      format_4f = (\<lambda>r. ''0.0000''),
      json_dumps = (\<lambda>body. case body of JObject data \<Rightarrow> concat (map fst data) | _ \<Rightarrow> []),
      encode_error = (\<lambda>s. ''surrogates not allowed''),
      type_error = (\<lambda>body. ''the body cannot be indexed by a field name''),
      sha256 = sample_digest,
      bfv_vector = (\<lambda>context v. Inr ''ciphertext'')\<rparr>"

text \<open>
  Seven medical features, one dictionary encoder, a poisoning model that answers 0.1
  against the threshold 0.5, an autoencoder that reconstructs its input exactly, and a
  prediction model that answers 0.73. The store works.
\<close>

definition sample_env :: env where
  "sample_env =
     \<lparr>lib = sample_lib,
      feature_order = [''gender'', ''age'', ''hypertension'', ''heart_disease'',
                       ''bmi'', ''HbA1c_level'', ''blood_glucose_level''],
      encoders = [(''gender'', EncDict [(''Female'', PInt 0), (''Male'', PInt 1)])],
      poisoning_scaler = None,
      poisoning_model = WithProba (\<lambda>X. Inr 0.1),
      poisoning_threshold = 0.5,
      n_features_in = Some 7,
      protection_scaler = (\<lambda>x. Inr x),
      autoencoder = (\<lambda>x. Inr x),
      protection_threshold = 0.01,
      scaler = Some (\<lambda>x. Inr x),
      model = WithProba (\<lambda>X. Inr 0.73),
      load_context = Inr ''public key context'',
      audit_insert_ok = (\<lambda>ev. True),
      patients_update_error = None,
      plain_insert_ok = True,
      utcnow = 0\<rparr>"

definition sample_data :: "(string \<times> pyval) list" where
  "sample_data =
     [(''NIC'', PStr ''199012345V''), (''Name'', PStr ''A. Perera''),
      (''gender'', PInt 1), (''age'', PInt 45), (''hypertension'', PInt 0),
      (''heart_disease'', PInt 0), (''bmi'', PInt 27), (''HbA1c_level'', PInt 6),
      (''blood_glucose_level'', PInt 140)]"

definition empty_db :: db where
  "empty_db = \<lparr>patients = [], patients_plain = [], security_logs = []\<rparr>"

text \<open>The scenario of the specification: poisoning probability 0.9 against 0.5.\<close>

definition poisoned_env :: env where
  "poisoned_env = sample_env\<lparr>poisoning_model := WithProba (\<lambda>X. Inr 0.9)\<rparr>"

text \<open>The poisoning model raises (here the message scikit-learn gives for a wrong shape).\<close>

definition failing_poison_env :: env where
  "failing_poison_env =
     sample_env\<lparr>poisoning_model :=
       WithProba (\<lambda>X. Inl ''X has 7 features, but LogisticRegression is expecting 8 features as input.'')\<rparr>"

text \<open>\<open>bfv_vector\<close> raises for every input (a context that cannot encrypt).\<close>

definition no_encrypt_lib :: pylib where
  "no_encrypt_lib = sample_lib\<lparr>bfv_vector := (\<lambda>context v. Inl ''encryption failed'')\<rparr>"

definition no_encrypt_env :: env where
  "no_encrypt_env = sample_env\<lparr>lib := no_encrypt_lib\<rparr>"

text \<open>Every insert into \<open>security_logs\<close> fails.\<close>

definition audit_down_env :: env where
  "audit_down_env = sample_env\<lparr>audit_insert_ok := (\<lambda>ev. False)\<rparr>"


definition bad_bmi_data :: "(string \<times> pyval) list" where
  "bad_bmi_data =
     [(''NIC'', PStr ''199012345V''), (''Name'', PStr ''A. Perera''),
      (''gender'', PInt 1), (''age'', PInt 45), (''hypertension'', PInt 0),
      (''heart_disease'', PInt 0), (''bmi'', PStr ''abc''), (''HbA1c_level'', PInt 6),
      (''blood_glucose_level'', PInt 140)]"

definition zero_nic_data :: "(string \<times> pyval) list" where
  "zero_nic_data =
     [(''NIC'', PInt 0), (''Name'', PStr ''A. Perera''),
      (''gender'', PInt 1), (''age'', PInt 45), (''hypertension'', PInt 0),
      (''heart_disease'', PInt 0), (''bmi'', PInt 27), (''HbA1c_level'', PInt 6),
      (''blood_glucose_level'', PInt 140)]"

definition second_data :: "(string \<times> pyval) list" where
  "second_data =
     [(''NIC'', PStr ''199012345V''), (''Name'', PStr ''A. Perera''),
      (''gender'', PInt 1), (''age'', PInt 45), (''hypertension'', PInt 0),
      (''heart_disease'', PInt 0), (''bmi'', PInt 27), (''HbA1c_level'', PInt 6),
      (''blood_glucose_level'', PInt 180)]"

section \<open>Reading the audit log\<close>

text \<open>
  The stage an audit entry belongs to, by its event type; \<open>system_error\<close> is written by
  the handler at the end of the function and belongs to no stage. \<open>stage_entries s logs\<close>
  counts the entries of stage \<open>s\<close>.
\<close>

fun stage_of :: "event_type \<Rightarrow> stage option" where
  "stage_of poisoning_check = Some Poisoning"
| "stage_of poisoning_check_error = Some Poisoning"
| "stage_of extraction_check = Some Extraction"
| "stage_of extraction_check_error = Some Extraction"
| "stage_of prediction_success = Some Prediction"
| "stage_of prediction_error = Some Prediction"
| "stage_of record_created = Some Persistence"
| "stage_of record_creation_error = Some Persistence"
| "stage_of system_error = None"

definition stage_entries :: "stage \<Rightarrow> log_entry list \<Rightarrow> nat" where
  "stage_entries s logs = length (filter (\<lambda>e. stage_of (event_type e) = Some s) logs)"

text \<open>
  \<open>audit_fits E s new tr\<close>: among the entries \<open>new\<close> those of stage \<open>s\<close> are at most as
  many as the times \<open>s\<close> occurs in the trace \<open>tr\<close>, and exactly as many when every insert
  into the audit log succeeds.
\<close>

definition audit_fits :: "env \<Rightarrow> stage \<Rightarrow> log_entry list \<Rightarrow> stage list \<Rightarrow> bool" where
  "audit_fits E s new tr \<longleftrightarrow>
     stage_entries s new \<le> count_list tr s \<and>
     ((\<forall>ev. audit_insert_ok E ev) \<longrightarrow> stage_entries s new = count_list tr s)"

section \<open>Properties of the codec\<close>

lemma hex_val_below_16: "list_all (\<lambda>d. hex_val (hexdigits ! d) = Some d) [0..<16]"
  by code_simp

lemma hex_val_hexdigits: "d < 16 \<Longrightarrow> hex_val (hexdigits ! d) = Some d"
  using hex_val_below_16 by (simp add: list_all_iff)

lemma int16_acc_snoc:
  "int16_acc acc (cs @ [c]) =
     (case int16_acc acc cs of
        None \<Rightarrow> None
      | Some a \<Rightarrow> (case hex_val c of None \<Rightarrow> None | Some d \<Rightarrow> Some (16 * a + d)))"
  by (induction cs arbitrary: acc) (auto split: option.splits)

lemma int16_acc_hex_digits:
  "int16_acc acc (hex_digits k x) = Some (acc * 16 ^ k + x mod 16 ^ k)"
proof (induction k arbitrary: x)
  case 0
  then show ?case by simp
next
  case (Suc k)
  have split: "x mod (16 * 16 ^ k) = 16 * ((x div 16) mod 16 ^ k) + x mod 16"
    by (simp add: mod_mult2_eq)
  show ?case
    by (simp add: int16_acc_snoc Suc.IH hex_val_hexdigits split algebra_simps)
qed

lemma hex_digits_length: "length (hex_digits k x) = k"
  by (induction k arbitrary: x) simp_all


lemma py_int16_hexdigest: "py_int16 (hexdigest w) = Some (unat w)"
proof -
  have nonempty: "hex_digits 64 (unat w) \<noteq> []"
    using hex_digits_length [of 64 "unat w"] by auto
  have "unat w < 2 ^ 256"
    using unsigned_less [of w, where ?'a = nat] by simp
  also have "(2::nat) ^ 256 = 16 ^ 64"
    by simp
  finally have "unat w mod 16 ^ 64 = unat w"
    by simp
  then show ?thesis
    by (simp add: py_int16_def hexdigest_def nonempty int16_acc_hex_digits)
qed



lemma hash_text_str: "hash_text L (PStr (py_str L v)) = hash_text L v"
  by (simp add: hash_text_def split: option.splits)

lemma encrypt_vector_plain:
  "encode (py_str L v) = Some bytes \<Longrightarrow>
     encrypt_vector L context v =
       (case bfv_vector L context [unat (sha256 L bytes) mod 65537] of
          Inl e \<Rightarrow> None
        | Inr encrypted_val \<Rightarrow> Some encrypted_val)"
  by (simp add: hash_text_def encrypt_vector_def plain_modulus_def py_int16_hexdigest)






text \<open>
  C7. The intersection of two collections of hashed identifiers is commutative and
  idempotent, and for pairwise distinct \<open>h1\<close>, \<open>h2\<close>, \<open>h3\<close>, \<open>h4\<close> the collections
  \<open>{h1,h2,h3}\<close> and \<open>{h2,h3,h4}\<close> have the intersection \<open>{h2,h3}\<close>.
\<close>

theorem intersect_comm_idem_scenario:
  "common_hashed_nics a b = common_hashed_nics b a
   \<and> common_hashed_nics a a = set a
   \<and> (distinct [h1, h2, h3, h4] \<longrightarrow>
        common_hashed_nics [h1, h2, h3] [h2, h3, h4] = {h2, h3})"
  by (auto simp: common_hashed_nics_def)

theorem intersect_comm_idem_scenario_witness:
  "common_hashed_nics [''a1'', ''b2''] [''b2''] = common_hashed_nics [''b2''] [''a1'', ''b2'']
   \<and> common_hashed_nics [''a1'', ''b2''] [''a1'', ''b2''] = set [''a1'', ''b2'']
   \<and> distinct [''h1'', ''h2'', ''h3'', ''h4'']
   \<and> common_hashed_nics [''h1'', ''h2'', ''h3''] [''h2'', ''h3'', ''h4''] = {''h2'', ''h3''}"
  using intersect_comm_idem_scenario
    [of "[''a1'', ''b2'']" "[''b2'']" "''h1''" "''h2''" "''h3''" "''h4''"]
  by simp

section \<open>The endpoint: stages entered and audit entries\<close>

lemma log_patients: "patients (log_security_event E d i m a ev info) = patients d"
  and log_patients_plain: "patients_plain (log_security_event E d i m a ev info) = patients_plain d"
  by (simp_all add: log_security_event_def)

lemma prediction_step_trace:
  "prediction_step E d data x m = (resp, d', tr) \<Longrightarrow> tr \<in> {[Prediction], [Prediction, Persistence]}"
  by (auto simp: prediction_step_def Let_def split: sum.splits prod.splits)

lemma extraction_step_trace:
  "extraction_step E d data = (resp, d', tr) \<Longrightarrow>
     tr \<in> {[], [Extraction], [Extraction, Prediction], [Extraction, Prediction, Persistence]}"
  by (auto simp: extraction_step_def Let_def split: sum.splits prod.splits if_splits
      dest!: prediction_step_trace)

lemma create_patient_trace:
  "create_patient E d req = (resp, d', tr) \<Longrightarrow>
     tr \<in> {[], [Poisoning], [Poisoning, Extraction], [Poisoning, Extraction, Prediction],
      [Poisoning, Extraction, Prediction, Persistence]}"
  by (auto simp: create_patient_def Let_def split: json.splits sum.splits prod.splits if_splits
      dest!: extraction_step_trace)

lemma create_patient_prefix:
  "prefix (snd (snd (create_patient E d req))) [Poisoning, Extraction, Prediction, Persistence]"
proof -
  obtain resp d' tr where r: "create_patient E d req = (resp, d', tr)"
    by (cases "create_patient E d req") auto
  from create_patient_trace [OF r] show ?thesis
    unfolding r by auto
qed


lemma update_patient_record_frame:
  "update_patient_record E d r = Inr d1 \<Longrightarrow>
     security_logs d1 = security_logs d \<and> patients_plain d1 = patients_plain d"
  by (auto simp: update_patient_record_def Let_def split: sum.splits option.splits)

lemma stage_entries_append:
  "stage_entries s (a @ b) = stage_entries s a + stage_entries s b"
  by (simp add: stage_entries_def)

lemma stage_entries_Nil: "stage_entries s [] = 0"
  by (simp add: stage_entries_def)

lemma stage_entries_single:
  "stage_entries s [e] = (if stage_of (event_type e) = Some s then 1 else 0)"
  by (simp add: stage_entries_def)

lemma audit_fits_append:
  "audit_fits E s n1 t1 \<Longrightarrow> audit_fits E s n2 t2 \<Longrightarrow> audit_fits E s (n1 @ n2) (t1 @ t2)"
  by (auto simp: audit_fits_def stage_entries_append)

lemma log_step:
  "\<exists>new. security_logs (log_security_event E d i m a ev info) = security_logs d @ new
     \<and> audit_fits E s new (case stage_of ev of None \<Rightarrow> [] | Some st \<Rightarrow> [st])"
  by (cases ev; cases s)
     (auto simp: log_security_event_def audit_fits_def stage_entries_def)

lemma build_record_fields:
  "NIC (build_record data pred) = dict_get data ''NIC'' PNone"
  "Name (build_record data pred) = dict_get data ''Name'' PNone"
  "Address (build_record data pred) = dict_get data ''Address'' (PStr [])"
  "diabetes (record_medical (build_record data pred)) = pred"
  "blood_glucose_level (record_medical (build_record data pred))
     = dict_get data ''blood_glucose_level'' PNone"
  by (simp_all add: build_record_def)

lemma save_record_failed:
  assumes "update_patient_record E d (build_record data pred) = Inl e"
  shows "save_record E d data pred =
           (error_response 500 ''Failed to save record'',
            log_security_event E d (JObject data) (Finite 0) False record_creation_error
              [(''error'', PStr e)])"
  using assms by (simp add: save_record_def)

lemma save_record_saved:
  assumes "update_patient_record E d (build_record data pred) = Inr d1"
    and "save_record E d data pred = (resp, d')"
  shows "status resp = 201"
    and "map_of (body resp) ''prediction'' =
           Some (PStr (if pred = 1 then ''Diabetic'' else ''Non-Diabetic''))"
    and "patients d' = patients d1"
    and "security_logs d' =
           security_logs (log_security_event E d1 (JObject data) (Finite 0) False record_created
             [(''patient_name'', dict_get data ''Name'' PNone),
              (''prediction'', prediction_tag pred)])"
    and "patients_plain d' = patients_plain d @
           (case summary_key (lib E) (dict_get data ''NIC'' PNone) of
              None \<Rightarrow> []
            | Some nic_hash \<Rightarrow>
                if plain_insert_ok E
                then [\<lparr>summary_NIC_Hashed = nic_hash,
                       summary_name = dict_get data ''Name'' PNone,
                       summary_diabetes = pred,
                       summary_created_at = utcnow E\<rparr>]
                else [])"
  using assms update_patient_record_frame [OF assms(1)]
  by (auto simp: save_record_def Let_def build_record_fields log_patients log_patients_plain
      split: option.splits)

lemma save_record_audit:
  assumes "save_record E d data pred = (resp, d')"
  shows "\<exists>new. security_logs d' = security_logs d @ new \<and> audit_fits E s new [Persistence]"
proof (cases "update_patient_record E d (build_record data pred)")
  case (Inl e)
  from log_step [of E d "JObject data" "Finite 0" False record_creation_error
                   "[(''error'', PStr e)]" s]
  show ?thesis using assms save_record_failed [OF Inl] by auto
next
  case (Inr d1)
  from log_step [of E d1 "JObject data" "Finite 0" False record_created
                   "[(''patient_name'', dict_get data ''Name'' PNone),
                     (''prediction'', prediction_tag pred)]" s]
  show ?thesis
    using save_record_saved(4) [OF Inr assms] update_patient_record_frame [OF Inr] by auto
qed

lemma prediction_step_audit:
  assumes "prediction_step E d data x m = (resp, d', tr)"
  shows "\<exists>new. security_logs d' = security_logs d @ new \<and> audit_fits E s new tr"
proof (cases "predict E x")
  case (Inl e)
  from log_step [of E d "JObject data" "Finite 0" False prediction_error "[(''error'', PStr e)]" s]
  show ?thesis using assms Inl by (auto simp: prediction_step_def)
next
  case (Inr pp)
  obtain pred prob where pp: "pp = (pred, prob)" by (cases pp)
  define info where "info = [(''prediction'', prediction_tag pred),
     (''probability'', (case prob of None \<Rightarrow> PNone | Some p \<Rightarrow> PFloat p))]"
  define d1 where "d1 = log_security_event E d (JObject data) m False prediction_success info"
  obtain n1 where n1: "security_logs d1 = security_logs d @ n1" "audit_fits E s n1 [Prediction]"
    using log_step [of E d "JObject data" m False prediction_success info s] by (auto simp: d1_def)
  have sr: "save_record E d1 data pred = (resp, d')" and tr: "tr = [Prediction, Persistence]"
    using assms Inr pp by (auto simp: prediction_step_def d1_def info_def split: prod.splits)
  obtain n2 where n2: "security_logs d' = security_logs d1 @ n2" "audit_fits E s n2 [Persistence]"
    using save_record_audit [OF sr] by blast
  have "audit_fits E s (n1 @ n2) ([Prediction] @ [Persistence])"
    using n1(2) n2(2) by (rule audit_fits_append)
  then show ?thesis using n1(1) n2(1) tr by auto
qed


lemma audit_fits_Nil: "audit_fits E s [] []"
  by (simp add: audit_fits_def stage_entries_def)

lemma extraction_step_audit:
  assumes "extraction_step E d data = (resp, d', tr)"
  shows "\<exists>new. security_logs d' = security_logs d @ new \<and> audit_fits E s new tr"
proof (cases "coerce_all (lib E) data (feature_order E)")
  case (Inl e)
  from log_step [of E d "JObject data" "Finite 0" False system_error "[(''error'', PStr e)]" s]
  show ?thesis using assms Inl by (auto simp: extraction_step_def)
next
  case (Inr x)
  show ?thesis
  proof (cases "detect_attack E x")
    case (Inl e)
    from log_step [of E d "JObject data" "Finite 0" True extraction_check_error
                     "[(''error'', PStr e)]" s]
    show ?thesis using assms Inr Inl by (auto simp: extraction_step_def)
  next
    case det: (Inr am)
    obtain attack m where am: "am = (attack, m)" by (cases am)
    define d1 where "d1 = log_security_event E d (JObject data) m attack extraction_check
                           [(''detection_threshold'', PStr ''auto'')]"
    obtain n1 where n1: "security_logs d1 = security_logs d @ n1" "audit_fits E s n1 [Extraction]"
      using log_step [of E d "JObject data" m attack extraction_check _ s]
      by (auto simp: d1_def)
    show ?thesis
    proof (cases attack)
      case True
      then have "d' = d1" "tr = [Extraction]"
        using assms Inr det am by (auto simp: extraction_step_def d1_def)
      then show ?thesis using n1 by auto
    next
      case False
      then obtain tr' where ps: "prediction_step E d1 data x m = (resp, d', tr')"
        and tr: "tr = Extraction # tr'"
        using assms Inr det am by (auto simp: extraction_step_def d1_def split: prod.splits)
      obtain n2 where n2: "security_logs d' = security_logs d1 @ n2" "audit_fits E s n2 tr'"
        using prediction_step_audit [OF ps] by blast
      have "audit_fits E s (n1 @ n2) ([Extraction] @ tr')"
        using n1(2) n2(2) by (rule audit_fits_append)
      then show ?thesis using n1(1) n2(1) tr by auto
    qed
  qed
qed

lemma create_patient_audit:
  assumes "create_patient E d req = (resp, d', tr)"
  shows "\<exists>new. security_logs d' = security_logs d @ new \<and> audit_fits E s new tr"
proof (cases "\<exists>data. req = JObject data \<and> data \<noteq> [] \<and> missing_fields (lib E) data = []")
  case False
  then have "tr = [] \<and> (d' = d \<or> d' = log_security_event E d req (Finite 0) False system_error
                                      [(''error'', PStr (type_error (lib E) req))])"
    using assms by (auto simp: create_patient_def split: json.splits if_splits)
  then show ?thesis
    using log_step [of E d req "Finite 0" False system_error
                      "[(''error'', PStr (type_error (lib E) req))]" s]
    by (auto simp: audit_fits_Nil)
next
  case True
  then obtain data where req: "req = JObject data" "data \<noteq> []" "missing_fields (lib E) data = []"
    by blast
  show ?thesis
  proof (cases "run_poisoning_check E data")
    case (Inl e)
    from log_step [of E d "JObject data" "Finite 0" True poisoning_check_error
                     "[(''error'', PStr e)]" s]
    show ?thesis using assms req Inl by (auto simp: create_patient_def)
  next
    case (Inr flag)
    define d1 where "d1 = log_security_event E d (JObject data) (Finite 0) flag poisoning_check
                               [(''threshold'', PFloat (poisoning_threshold E))]"
    obtain n1 where n1: "security_logs d1 = security_logs d @ n1" "audit_fits E s n1 [Poisoning]"
      using log_step [of E d "JObject data" "Finite 0" flag poisoning_check _ s]
      by (auto simp: d1_def)
    show ?thesis
    proof (cases flag)
      case True
      then have "d' = d1" "tr = [Poisoning]"
        using assms req Inr by (auto simp: create_patient_def d1_def)
      then show ?thesis using n1 by auto
    next
      case False
      then obtain tr' where es: "extraction_step E d1 data = (resp, d', tr')"
        and tr: "tr = Poisoning # tr'"
        using assms req Inr by (auto simp: create_patient_def d1_def split: prod.splits)
      obtain n2 where n2: "security_logs d' = security_logs d1 @ n2" "audit_fits E s n2 tr'"
        using extraction_step_audit [OF es] by blast
      have "audit_fits E s (n1 @ n2) ([Poisoning] @ tr')"
        using n1(2) n2(2) by (rule audit_fits_append)
      then show ?thesis using n1(1) n2(1) tr by auto
    qed
  qed
qed

lemma count_list_trace_le_1:
  "create_patient E d req = (resp, d', tr) \<Longrightarrow> count_list tr s \<le> 1"
  by (cases s) (auto dest!: create_patient_trace)

section \<open>The endpoint: what is stored and answered\<close>

lemma find_upsert:
  "NIC_Hashed doc = h \<Longrightarrow> find (\<lambda>x. NIC_Hashed x = h) (upsert h doc xs) = Some doc"
  by (induction xs) auto

lemma count_upsert:
  "NIC_Hashed doc = h \<Longrightarrow>
     length (filter (\<lambda>x. NIC_Hashed x = h) (upsert h doc xs)) =
       max 1 (length (filter (\<lambda>x. NIC_Hashed x = h) xs))"
  by (induction xs) auto

lemma encrypt_vector_Some_hash:
  assumes "encrypt_vector L ctx v = Some c"
  shows "\<exists>h. hash_text L v = Inr h"
  using assms by (cases "hash_text L v") (simp_all add: encrypt_vector_def hash_text_str)

lemma create_patient_pass:
  assumes "data \<noteq> []" and "missing_fields (lib E) data = []"
    and "run_poisoning_check E data = Inr False"
    and "coerce_all (lib E) data (feature_order E) = Inr x"
    and "detect_attack E x = Inr (False, m)"
    and "predict E x = Inr (pred, prob)"
  shows "\<exists>d0. patients d0 = patients d \<and> patients_plain d0 = patients_plain d
           \<and> create_patient E d (JObject data) =
               (fst (save_record E d0 data pred), snd (save_record E d0 data pred),
                [Poisoning, Extraction, Prediction, Persistence])"
proof -
  define d0 where "d0 =
    log_security_event E
      (log_security_event E
        (log_security_event E d (JObject data) (Finite 0) False poisoning_check
          [(''threshold'', PFloat (poisoning_threshold E))])
        (JObject data) m False extraction_check [(''detection_threshold'', PStr ''auto'')])
      (JObject data) m False prediction_success
      [(''prediction'', prediction_tag pred),
       (''probability'', (case prob of None \<Rightarrow> PNone | Some p \<Rightarrow> PFloat p))]"
  have "create_patient E d (JObject data) =
          (fst (save_record E d0 data pred), snd (save_record E d0 data pred),
           [Poisoning, Extraction, Prediction, Persistence])"
    using assms
    by (simp add: create_patient_def extraction_step_def prediction_step_def Let_def
        d0_def case_prod_beta)
  moreover have "patients d0 = patients d" and "patients_plain d0 = patients_plain d"
    by (simp_all add: d0_def log_patients log_patients_plain)
  ultimately show ?thesis by blast
qed

lemma update_patient_record_stored:
  assumes "load_context E = Inr ctx" and "patients_update_error E = None"
    and "encrypt_vector (lib E) ctx (PStr (py_str (lib E) (NIC r))) = Some ei"
    and "encrypt_vector (lib E) ctx (Name r) = Some en"
    and "encrypt_vector (lib E) ctx (Address r) = Some ea"
  shows "\<exists>h. hash_text (lib E) (PStr (py_str (lib E) (NIC r))) = Inr h
           \<and> update_patient_record E d r =
               Inr (d\<lparr>patients :=
                      upsert h
                        \<lparr>NIC_Hashed = h, NIC_Encrypted = ei, Name_Encrypted = en,
                         Address_Encrypted = ea, document_medical = record_medical r\<rparr>
                        (patients d)\<rparr>)"
proof -
  obtain h where "hash_text (lib E) (PStr (py_str (lib E) (NIC r))) = Inr h"
    using encrypt_vector_Some_hash [OF assms(3)] by blast
  then show ?thesis
    using assms by (simp add: update_patient_record_def)
qed

lemma save_record_stored:
  assumes "load_context E = Inr ctx" and "patients_update_error E = None"
    and "encrypt_vector (lib E) ctx (PStr (py_str (lib E) (dict_get data ''NIC'' PNone))) = Some ei"
    and "encrypt_vector (lib E) ctx (dict_get data ''Name'' PNone) = Some en"
    and "encrypt_vector (lib E) ctx (dict_get data ''Address'' (PStr [])) = Some ea"
    and "save_record E d data pred = (resp, d')"
  shows "status resp = 201
    \<and> (\<exists>h. hash_text (lib E) (PStr (py_str (lib E) (dict_get data ''NIC'' PNone))) = Inr h
         \<and> patients d' =
             upsert h
               \<lparr>NIC_Hashed = h, NIC_Encrypted = ei, Name_Encrypted = en, Address_Encrypted = ea,
                document_medical = record_medical (build_record data pred)\<rparr>
               (patients d))"
proof -
  obtain h where h: "hash_text (lib E) (PStr (py_str (lib E) (dict_get data ''NIC'' PNone))) = Inr h"
    and u: "update_patient_record E d (build_record data pred) =
               Inr (d\<lparr>patients :=
                      upsert h
                        \<lparr>NIC_Hashed = h, NIC_Encrypted = ei, Name_Encrypted = en,
                         Address_Encrypted = ea,
                         document_medical = record_medical (build_record data pred)\<rparr>
                        (patients d)\<rparr>)"
    using update_patient_record_stored
            [of E ctx "build_record data pred" ei en ea d] assms(1-5)
    by (auto simp: build_record_fields)
  from save_record_saved(1,3) [OF u assms(6)] h show ?thesis by simp
qed

lemma save_record_created:
  assumes "save_record E d data pred = (resp, d')" and "status resp = 201"
  shows "\<exists>d1. update_patient_record E d (build_record data pred) = Inr d1"
  using assms
  by (cases "update_patient_record E d (build_record data pred)")
     (auto simp: save_record_failed error_response_def)

lemma update_patient_record_patients:
  assumes "update_patient_record E d r = Inr d1"
  shows "patients d1 = patients d \<or>
         (\<exists>doc. hash_text (lib E) (PStr (py_str (lib E) (NIC r))) = Inr (NIC_Hashed doc)
            \<and> document_medical doc = record_medical r
            \<and> patients d1 = upsert (NIC_Hashed doc) doc (patients d))"
proof (cases "patients d1 = patients d")
  case True
  then show ?thesis by simp
next
  case False
  then obtain h ei en ea where
    "hash_text (lib E) (PStr (py_str (lib E) (NIC r))) = Inr h"
    "patients d1 =
       upsert h
         \<lparr>NIC_Hashed = h, NIC_Encrypted = ei, Name_Encrypted = en, Address_Encrypted = ea,
          document_medical = record_medical r\<rparr>
         (patients d)"
    using assms
    by (auto simp: update_patient_record_def Let_def split: sum.splits option.splits)
  then show ?thesis
    by (intro disjI2
          exI [of _ "\<lparr>NIC_Hashed = h, NIC_Encrypted = ei, Name_Encrypted = en,
                      Address_Encrypted = ea, document_medical = record_medical r\<rparr>"])
       simp
qed

lemma create_patient_created:
  assumes "create_patient E d (JObject data) = (resp, d', tr)" and "status resp = 201"
  shows "\<exists>d0 pred. save_record E d0 data pred = (resp, d')
           \<and> patients d0 = patients d \<and> patients_plain d0 = patients_plain d"
proof -
  obtain x m pp where
    "run_poisoning_check E data = Inr False"
    "coerce_all (lib E) data (feature_order E) = Inr x"
    "detect_attack E x = Inr (False, m)"
    "predict E x = Inr pp" "data \<noteq> []" "missing_fields (lib E) data = []"
    using assms
    by (auto simp: create_patient_def extraction_step_def prediction_step_def Let_def
        error_response_def split: sum.splits prod.splits if_splits)
  moreover obtain pred prob where "pp = (pred, prob)" by (cases pp)
  ultimately obtain d0 where d0: "patients d0 = patients d" "patients_plain d0 = patients_plain d"
    "create_patient E d (JObject data) =
       (fst (save_record E d0 data pred), snd (save_record E d0 data pred),
        [Poisoning, Extraction, Prediction, Persistence])"
    using create_patient_pass [of data E x m pred prob d] by auto
  then have "save_record E d0 data pred = (resp, d')"
    using assms(1) by (simp add: prod_eq_iff)
  with d0 show ?thesis by blast
qed

lemma update_patient_record_hash:
  assumes "update_patient_record E d r = Inr d1"
  shows "\<exists>h. hash_text (lib E) (PStr (py_str (lib E) (NIC r))) = Inr h"
  using assms
  by (cases "hash_text (lib E) (PStr (py_str (lib E) (NIC r)))")
     (auto simp: update_patient_record_def Let_def split: sum.splits)

lemma summary_key_truthy:
  assumes "py_truthy nic" and "hash_text L (PStr (py_str L nic)) = Inr h"
  shows "summary_key L nic = Some (Some h)"
  using assms by (auto simp: summary_key_def hash_text_def split: option.splits)

lemma coerce_all_fails:
  assumes "f \<in> set fs" and "map_of data f = Some v" and "coerce_feature L f v = Inl e"
  shows "\<exists>e'. coerce_all L data fs = Inl e'"
  using assms
  by (induction fs) (auto split: option.splits sum.splits)

lemma create_patient_not_coerced:
  assumes "data \<noteq> []" and "missing_fields (lib E) data = []"
    and "coerce_all (lib E) data (feature_order E) = Inl e"
    and "create_patient E d (JObject data) = (resp, d', tr)"
  shows "tr = [Poisoning]" and "status resp = 403 \<or> status resp = 500"
    and "status resp = 403 \<longleftrightarrow> run_poisoning_check E data = Inr True"
    and "patients d' = patients d" and "patients_plain d' = patients_plain d"
  using assms
  by (auto simp: create_patient_def extraction_step_def Let_def error_response_def
      log_patients log_patients_plain split: sum.splits if_splits)

lemma create_patient_extraction_entered:
  assumes "create_patient E d (JObject data) = (resp, d', tr)" and "Extraction \<in> set tr"
  shows "run_poisoning_check E data = Inr False"
    and "\<exists>x. coerce_all (lib E) data (feature_order E) = Inr x"
  using assms
  by (auto simp: create_patient_def extraction_step_def Let_def
      split: sum.splits if_splits prod.splits)

lemma create_patient_not_object:
  assumes "\<And>data. req \<noteq> JObject data" and "create_patient E d req = (resp, d', tr)"
  shows "tr = []" and "status resp = 400 \<or> status resp = 500"
    and "patients d' = patients d" and "patients_plain d' = patients_plain d"
  using assms
  by (cases req; auto simp: create_patient_def error_response_def log_patients log_patients_plain
      split: if_splits)+

section \<open>The sample requests, evaluated\<close>

lemma str_int_small: "str_int 0 = ''0''" "str_int 1 = ''1''" "str_int 6 = ''6''"
  "str_int 27 = ''27''" "str_int 45 = ''45''" "str_int 140 = ''140''" "str_int 180 = ''180''"
  by (simp_all add: str_int_def dec_digits.simps hexdigits_def)

text \<open>A text that starts and ends with a printable ASCII character is its own strip.\<close>

lemma space_seqs_ends:
  "list_all (\<lambda>w. \<not> (33 \<le> (of_char (hd w) :: nat) \<and> (of_char (hd w) :: nat) < 127)
                \<and> \<not> (33 \<le> (of_char (last w) :: nat) \<and> (of_char (last w) :: nat) < 127))
     space_seqs"
  by (simp add: space_seqs_def)

lemma lstrip_keep:
  assumes "s \<noteq> []" and "33 \<le> (of_char (hd s) :: nat)" and "(of_char (hd s) :: nat) < 127"
  shows "lstrip s = s"
proof -
  have "\<not> (w \<noteq> [] \<and> prefix w s)" if "w \<in> set space_seqs" for w
  proof
    assume a: "w \<noteq> [] \<and> prefix w s"
    then have "hd w = hd s" by (cases w) (auto simp: prefix_def)
    with that assms space_seqs_ends show False by (auto simp: list_all_iff)
  qed
  then have "find (\<lambda>w. w \<noteq> [] \<and> prefix w s) space_seqs = None"
    by (auto simp: find_None_iff)
  then show ?thesis by (simp add: lstrip.simps [of s])
qed

lemma rstrip_keep:
  assumes "s \<noteq> []" and "33 \<le> (of_char (last s) :: nat)" and "(of_char (last s) :: nat) < 127"
  shows "rstrip s = s"
proof -
  have "\<not> (w \<noteq> [] \<and> suffix w s)" if "w \<in> set space_seqs" for w
  proof
    assume a: "w \<noteq> [] \<and> suffix w s"
    then have "last w = last s" by (auto simp: suffix_def)
    with that assms space_seqs_ends show False by (auto simp: list_all_iff)
  qed
  then have "find (\<lambda>w. w \<noteq> [] \<and> suffix w s) space_seqs = None"
    by (auto simp: find_None_iff)
  then show ?thesis by (simp add: rstrip.simps [of s])
qed

lemma py_strip_keep:
  assumes "s \<noteq> []" and "33 \<le> (of_char (hd s) :: nat)" and "(of_char (hd s) :: nat) < 127"
    and "33 \<le> (of_char (last s) :: nat)" and "(of_char (last s) :: nat) < 127"
  shows "py_strip s = s"
  using assms by (simp add: py_strip_def lstrip_keep rstrip_keep)

lemma py_strip_Nil: "py_strip [] = []"
  by (simp add: py_strip_def lstrip.simps [of "[]"] rstrip.simps [of "[]"] space_seqs_def)

lemmas sample_fields =
  sample_env_def sample_lib_def poisoned_env_def failing_poison_env_def no_encrypt_env_def
  no_encrypt_lib_def audit_down_env_def

lemmas sample_requests =
  sample_data_def bad_bmi_data_def zero_nic_data_def second_data_def

lemma sample_store:
  "lib sample_env = sample_lib" "lib audit_down_env = sample_lib"
  "lib failing_poison_env = sample_lib" "lib poisoned_env = sample_lib"
  "lib no_encrypt_env = no_encrypt_lib"
  "feature_order audit_down_env = feature_order sample_env"
  "feature_order no_encrypt_env = feature_order sample_env"
  "load_context sample_env = Inr ''public key context''"
  "load_context no_encrypt_env = Inr ''public key context''"
  "load_context audit_down_env = Inr ''public key context''"
  "patients_update_error sample_env = None" "patients_update_error no_encrypt_env = None"
  "patients_update_error audit_down_env = None"
  "plain_insert_ok sample_env" "plain_insert_ok no_encrypt_env" "plain_insert_ok audit_down_env"
  "audit_insert_ok sample_env ev" "audit_insert_ok no_encrypt_env ev"
  "audit_insert_ok poisoned_env ev" "audit_insert_ok failing_poison_env ev"
  "\<not> audit_insert_ok audit_down_env ev"
  "bfv_vector sample_lib ctx v = Inr ''ciphertext''"
  "bfv_vector no_encrypt_lib ctx v = Inl ''encryption failed''"
  "poisoning_threshold poisoned_env = 0.5"
  by (simp_all add: sample_fields)

lemma sample_nonempty:
  "sample_data \<noteq> []" "bad_bmi_data \<noteq> []" "zero_nic_data \<noteq> []" "second_data \<noteq> []"
  by (simp_all add: sample_requests)

lemma sample_missing:
  "missing_fields sample_lib sample_data = []"
  "missing_fields no_encrypt_lib sample_data = []"
  "missing_fields sample_lib bad_bmi_data = []"
  "missing_fields sample_lib zero_nic_data = []"
  "missing_fields sample_lib second_data = []"
  by (simp_all add: missing_fields_def required_def sample_requests py_strip_keep str_int_small)

lemma sample_poison:
  "run_poisoning_check sample_env sample_data = Inr False"
  "run_poisoning_check poisoned_env sample_data = Inr True"
  "run_poisoning_check no_encrypt_env sample_data = Inr False"
  "run_poisoning_check audit_down_env sample_data = Inr False"
  "run_poisoning_check sample_env bad_bmi_data = Inr False"
  "run_poisoning_check sample_env zero_nic_data = Inr False"
  "run_poisoning_check sample_env second_data = Inr False"
  "run_poisoning_check failing_poison_env sample_data =
     Inl ''Poisoning check failed: X has 7 features, but LogisticRegression is expecting 8 features as input.''"
  by (simp_all add: run_poisoning_check_def sample_fields sample_requests encode_feature_def
      dict_get_def digits_float_def is_digit_def)

lemma sample_coerce:
  "coerce_all sample_lib sample_data (feature_order sample_env) = Inr [1, 45, 0, 0, 27, 6, 140]"
  "coerce_all no_encrypt_lib sample_data (feature_order sample_env) = Inr [1, 45, 0, 0, 27, 6, 140]"
  "coerce_all sample_lib zero_nic_data (feature_order sample_env) = Inr [1, 45, 0, 0, 27, 6, 140]"
  "coerce_all sample_lib second_data (feature_order sample_env) = Inr [1, 45, 0, 0, 27, 6, 180]"
  "coerce_all sample_lib bad_bmi_data (feature_order sample_env) = Inl ''Invalid value for bmi: abc''"
  by (simp_all add: sample_fields sample_requests coerce_feature_def digits_float_def is_digit_def)

lemma sample_detect:
  "detect_attack sample_env [1, 45, 0, 0, 27, 6, 140] = Inr (False, Finite 0)"
  "detect_attack sample_env [1, 45, 0, 0, 27, 6, 180] = Inr (False, Finite 0)"
  "detect_attack no_encrypt_env [1, 45, 0, 0, 27, 6, 140] = Inr (False, Finite 0)"
  "detect_attack audit_down_env [1, 45, 0, 0, 27, 6, 140] = Inr (False, Finite 0)"
  by (simp_all add: detect_attack_def sample_fields broadcast_diff_def np_mean_def)

lemma sample_predict:
  "predict sample_env x = Inr (1, Some 0.73)"
  "predict no_encrypt_env x = Inr (1, Some 0.73)"
  "predict audit_down_env x = Inr (1, Some 0.73)"
  by (simp_all add: predict_def sample_fields)

lemma sample_encodable:
  "encode ''199012345V'' = Some ''199012345V''" "encode ''A. Perera'' = Some ''A. Perera''"
  "encode [] = Some []" "encode ''0'' = Some ''0''"
  by (simp_all add: encode_def)

lemma sample_hash:
  "hash_text sample_lib (PStr ''199012345V'') = Inr (hexdigest (sample_digest ''199012345V''))"
  "hash_text no_encrypt_lib (PStr ''199012345V'') = Inr (hexdigest (sample_digest ''199012345V''))"
  "hash_text sample_lib (PStr ''0'') = Inr (hexdigest (sample_digest ''0''))"
  by (simp_all add: hash_text_def sample_encodable sample_lib_def no_encrypt_lib_def)

lemma sample_encrypt:
  "encrypt_vector sample_lib ctx (PStr ''199012345V'') = Some ''ciphertext''"
  "encrypt_vector sample_lib ctx (PStr ''A. Perera'') = Some ''ciphertext''"
  "encrypt_vector sample_lib ctx (PStr []) = Some ''ciphertext''"
  "encrypt_vector sample_lib ctx (PStr ''0'') = Some ''ciphertext''"
  "encrypt_vector no_encrypt_lib ctx (PStr ''199012345V'') = None"
  "encrypt_vector no_encrypt_lib ctx (PStr ''A. Perera'') = None"
  "encrypt_vector no_encrypt_lib ctx (PStr []) = None"
  by (simp_all add: encrypt_vector_plain sample_encodable sample_store)

lemma sample_summary_key:
  "summary_key sample_lib (PStr ''199012345V'') = Some (Some (hexdigest (sample_digest ''199012345V'')))"
  "summary_key no_encrypt_lib (PStr ''199012345V'') = Some (Some (hexdigest (sample_digest ''199012345V'')))"
  "summary_key sample_lib (PInt 0) = Some None"
  by (simp_all add: summary_key_def sample_encodable sample_lib_def no_encrypt_lib_def)

lemmas run_defs =
  create_patient_def extraction_step_def prediction_step_def save_record_def build_record_def
  update_patient_record_def log_security_event_def Let_def

lemmas sample_run =
  sample_store sample_nonempty sample_missing sample_poison sample_coerce sample_detect
  sample_predict sample_hash sample_encrypt sample_summary_key

lemma sample_get:
  "dict_get sample_data ''NIC'' PNone = PStr ''199012345V''"
  "dict_get second_data ''NIC'' PNone = PStr ''199012345V''"
  "dict_get zero_nic_data ''NIC'' PNone = PInt 0"
  "dict_get sample_data ''Name'' PNone = PStr ''A. Perera''"
  "dict_get second_data ''Name'' PNone = PStr ''A. Perera''"
  "dict_get zero_nic_data ''Name'' PNone = PStr ''A. Perera''"
  "dict_get sample_data ''Address'' (PStr []) = PStr []"
  "dict_get second_data ''Address'' (PStr []) = PStr []"
  "dict_get zero_nic_data ''Address'' (PStr []) = PStr []"
  "dict_get sample_data ''blood_glucose_level'' PNone = PInt 140"
  "dict_get second_data ''blood_glucose_level'' PNone = PInt 180"
  by (simp_all add: dict_get_def sample_requests)

lemma sample_bad_bmi:
  "coerce_feature sample_lib ''bmi'' (PStr ''abc'') = Inl ''Invalid value for bmi: abc''"
  by (simp add: coerce_feature_def sample_lib_def digits_float_def is_digit_def)

lemma sample_bmi_order: "''bmi'' \<in> set (feature_order sample_env)"
  by (simp add: sample_env_def)

lemma sample_bmi_value: "map_of bad_bmi_data ''bmi'' = Some (PStr ''abc'')"
  by (simp add: bad_bmi_data_def)

lemma sample_short_missing:
  "missing_fields sample_lib [(''NIC'', PStr ''199012345V'')] \<noteq> []"
  by (simp add: missing_fields_def required_def)

section \<open>The claims about the intake endpoint\<close>

text \<open>
  C1. Whatever the request, the stages entered form an initial part of the sequence
  poisoning check, extraction check, prediction, persistence, so each is entered only
  after its predecessors. When the poisoning gate is reached and answers that the
  input is poisoned, the call returns 403 with only the poisoning stage entered:
  the collections \<open>patients\<close> and \<open>patients_plain\<close> are unchanged and the audit log gains
  at most one entry, the \<open>poisoning_check\<close> verdict with \<open>is_attack\<close> set.
\<close>

theorem gate_order_and_poison_short_circuit:
  "prefix (snd (snd (create_patient E d req))) [Poisoning, Extraction, Prediction, Persistence]
   \<and> (data \<noteq> [] \<and> missing_fields (lib E) data = [] \<and> run_poisoning_check E data = Inr True
        \<longrightarrow>
        (case create_patient E d (JObject data) of
           (resp, d', tr) \<Rightarrow>
             status resp = 403 \<and> tr = [Poisoning]
             \<and> patients d' = patients d \<and> patients_plain d' = patients_plain d
             \<and> (security_logs d' = security_logs d
                  \<or> (\<exists>e. security_logs d' = security_logs d @ [e]
                         \<and> event_type e = poisoning_check \<and> is_attack e))))"
proof (rule conjI)
  show "prefix (snd (snd (create_patient E d req)))
          [Poisoning, Extraction, Prediction, Persistence]"
    by (rule create_patient_prefix)
next
  show "data \<noteq> [] \<and> missing_fields (lib E) data = [] \<and> run_poisoning_check E data = Inr True
        \<longrightarrow>
        (case create_patient E d (JObject data) of
           (resp, d', tr) \<Rightarrow>
             status resp = 403 \<and> tr = [Poisoning]
             \<and> patients d' = patients d \<and> patients_plain d' = patients_plain d
             \<and> (security_logs d' = security_logs d
                  \<or> (\<exists>e. security_logs d' = security_logs d @ [e]
                         \<and> event_type e = poisoning_check \<and> is_attack e)))"
    by (auto simp: create_patient_def log_security_event_def)
qed

theorem gate_order_and_poison_short_circuit_witness:
  "sample_data \<noteq> [] \<and> missing_fields (lib poisoned_env) sample_data = []
   \<and> run_poisoning_check poisoned_env sample_data = Inr True
   \<and> (case create_patient poisoned_env empty_db (JObject sample_data) of
         (resp, d', tr) \<Rightarrow>
           status resp = 403 \<and> tr = [Poisoning] \<and> patients d' = [] \<and> patients_plain d' = []
           \<and> map event_type (security_logs d') = [poisoning_check]
           \<and> map is_attack (security_logs d') = [True])"
  using gate_order_and_poison_short_circuit
          [of poisoned_env empty_db "JObject sample_data" sample_data]
  by (simp add: run_defs sample_run empty_db_def)

text \<open>
  C2 (what the code does). With a context that cannot encrypt, \<open>encrypt_vector\<close> returns
  \<open>None\<close> for the name; the endpoint still answers 201, the collection \<open>patients\<close> stays
  empty, and a plaintext summary is written all the same.
\<close>

theorem failed_encryption_still_writes_summary:
  "encrypt_vector (lib no_encrypt_env) ''public key context'' (PStr ''A. Perera'') = None
   \<and> (case create_patient no_encrypt_env empty_db (JObject sample_data) of
         (resp, d', tr) \<Rightarrow>
           status resp = 201 \<and> patients d' = []
           \<and> map summary_name (patients_plain d') = [PStr ''A. Perera'']
           \<and> map event_type (security_logs d') =
               [poisoning_check, extraction_check, prediction_success, record_created])"
  by (simp add: run_defs sample_run sample_get empty_db_def)

text \<open>
  C3, as stated, fails: with \<open>"bmi": "abc"\<close> every required field is present, the
  poisoning gate runs and passes, the coercion then raises, and the request ends with
  500 and a \<open>system_error\<close> entry. The body \<open>5\<close> is not an object: the check of the
  required fields raises on it, with the same answer and no stage entered.
\<close>

theorem non_coercible_feature_counterexample:
  "coerce_feature sample_lib ''bmi'' (PStr ''abc'') = Inl ''Invalid value for bmi: abc''
   \<and> (case create_patient sample_env empty_db (JObject bad_bmi_data) of
         (resp, d', tr) \<Rightarrow>
           status resp = 500 \<and> tr = [Poisoning]
           \<and> map_of (body resp) ''error'' = Some (PStr ''Internal server error'')
           \<and> map event_type (security_logs d') = [poisoning_check, system_error])
   \<and> (case create_patient sample_env empty_db (JValue (PInt 5)) of
         (resp, d', tr) \<Rightarrow>
           status resp = 500 \<and> tr = []
           \<and> map event_type (security_logs d') = [system_error])"
  by (simp add: run_defs sample_run sample_bad_bmi empty_db_def error_response_def)

text \<open>
  C3, amended. For a submitted JSON object, a required field that is absent, or whose
  text is blank, gives 400 before any stage is entered and leaves the store as it was.
  An object that passes this check enters the poisoning gate first, whatever its medical
  values are: a gate that blocks answers 403 and a gate that fails answers 500 with
  nothing coerced, since the medical features are coerced to real numbers only after the
  poisoning gate has passed. A medical feature whose value does not coerce (\<open>null\<close>, or a
  value that \<open>float\<close> refuses) always has the submission refused: the answer carries an
  error status, which is 403 exactly when the poisoning gate blocked, no stage after the
  poisoning gate is entered, and \<open>patients\<close> and \<open>patients_plain\<close> are left as they were.
  The extraction check is entered only for an object that passed the poisoning gate and
  whose medical features all coerced. A body that is not an object enters no stage, is
  answered with an error status and stores no record.
\<close>

theorem required_fields_checked_before_gates:
  "(f \<in> set required
      \<and> (case map_of data f of None \<Rightarrow> True | Some v \<Rightarrow> py_strip (py_str (lib E) v) = [])
      \<longrightarrow>
      (case create_patient E d (JObject data) of
         (resp, d', tr) \<Rightarrow> status resp = 400 \<and> d' = d \<and> tr = []))
   \<and> (data \<noteq> [] \<and> missing_fields (lib E) data = [] \<longrightarrow>
        (case create_patient E d (JObject data) of
           (resp, d', tr) \<Rightarrow>
             (\<exists>tr'. tr = Poisoning # tr')
             \<and> (run_poisoning_check E data = Inr True \<longrightarrow>
                  status resp = 403 \<and> tr = [Poisoning])
             \<and> (\<forall>e. run_poisoning_check E data = Inl e \<longrightarrow>
                  status resp = 500 \<and> tr = [Poisoning])
             \<and> (g \<in> set (feature_order E) \<and> map_of data g = Some w
                  \<and> coerce_feature (lib E) g w = Inl err
                  \<longrightarrow>
                  tr = [Poisoning] \<and> 400 \<le> status resp
                  \<and> (status resp = 403 \<longleftrightarrow> run_poisoning_check E data = Inr True)
                  \<and> patients d' = patients d \<and> patients_plain d' = patients_plain d)
             \<and> (Extraction \<in> set tr \<longrightarrow>
                  run_poisoning_check E data = Inr False
                  \<and> (\<exists>x. coerce_all (lib E) data (feature_order E) = Inr x))))
   \<and> (case create_patient E d (JArray xs) of
         (resp, d', tr) \<Rightarrow>
           tr = [] \<and> 400 \<le> status resp
           \<and> patients d' = patients d \<and> patients_plain d' = patients_plain d)
   \<and> (case create_patient E d (JValue u) of
         (resp, d', tr) \<Rightarrow>
           tr = [] \<and> 400 \<le> status resp
           \<and> patients d' = patients d \<and> patients_plain d' = patients_plain d)"
proof (intro conjI impI)
  assume a: "f \<in> set required
      \<and> (case map_of data f of None \<Rightarrow> True | Some v \<Rightarrow> py_strip (py_str (lib E) v) = [])"
  then have "f \<in> set (missing_fields (lib E) data)"
    by (simp add: missing_fields_def)
  then have "missing_fields (lib E) data \<noteq> []" by auto
  then show "case create_patient E d (JObject data) of
         (resp, d', tr) \<Rightarrow> status resp = 400 \<and> d' = d \<and> tr = []"
    by (simp add: create_patient_def error_response_def)
next
  assume ok: "data \<noteq> [] \<and> missing_fields (lib E) data = []"
  obtain resp d' tr where r: "create_patient E d (JObject data) = (resp, d', tr)"
    by (cases "create_patient E d (JObject data)") auto
  have first: "\<exists>tr'. tr = Poisoning # tr'"
    using ok r
    by (auto simp: create_patient_def Let_def split: sum.splits prod.splits if_splits)
  have blocked: "status resp = 403 \<and> tr = [Poisoning]"
    if "run_poisoning_check E data = Inr True"
    using ok r that by (auto simp: create_patient_def)
  have failed: "status resp = 500 \<and> tr = [Poisoning]"
    if "run_poisoning_check E data = Inl e" for e
    using ok r that by (auto simp: create_patient_def error_response_def)
  have refused: "tr = [Poisoning] \<and> 400 \<le> status resp
                  \<and> (status resp = 403 \<longleftrightarrow> run_poisoning_check E data = Inr True)
                  \<and> patients d' = patients d \<and> patients_plain d' = patients_plain d"
    if n: "g \<in> set (feature_order E) \<and> map_of data g = Some w
             \<and> coerce_feature (lib E) g w = Inl err"
  proof -
    from n obtain e' where c: "coerce_all (lib E) data (feature_order E) = Inl e'"
      using coerce_all_fails [of g "feature_order E" data w "lib E" err] by blast
    from ok have o: "data \<noteq> []" "missing_fields (lib E) data = []" by simp_all
    note np = create_patient_not_coerced [OF o c r]
    from np(2) have "400 \<le> status resp" by auto
    with np show ?thesis by simp
  qed
  have entered: "run_poisoning_check E data = Inr False
                  \<and> (\<exists>x. coerce_all (lib E) data (feature_order E) = Inr x)"
    if "Extraction \<in> set tr"
    using create_patient_extraction_entered [OF r that] by simp
  from first blocked failed refused entered
  show "case create_patient E d (JObject data) of
           (resp, d', tr) \<Rightarrow>
             (\<exists>tr'. tr = Poisoning # tr')
             \<and> (run_poisoning_check E data = Inr True \<longrightarrow>
                  status resp = 403 \<and> tr = [Poisoning])
             \<and> (\<forall>e. run_poisoning_check E data = Inl e \<longrightarrow>
                  status resp = 500 \<and> tr = [Poisoning])
             \<and> (g \<in> set (feature_order E) \<and> map_of data g = Some w
                  \<and> coerce_feature (lib E) g w = Inl err
                  \<longrightarrow>
                  tr = [Poisoning] \<and> 400 \<le> status resp
                  \<and> (status resp = 403 \<longleftrightarrow> run_poisoning_check E data = Inr True)
                  \<and> patients d' = patients d \<and> patients_plain d' = patients_plain d)
             \<and> (Extraction \<in> set tr \<longrightarrow>
                  run_poisoning_check E data = Inr False
                  \<and> (\<exists>x. coerce_all (lib E) data (feature_order E) = Inr x))"
    unfolding r by blast
next
  obtain resp d' tr where r: "create_patient E d (JArray xs) = (resp, d', tr)"
    by (cases "create_patient E d (JArray xs)") auto
  note n = create_patient_not_object [OF _ r]
  have "400 \<le> status resp" using n(2) by auto
  with n(1,3,4)
  show "case create_patient E d (JArray xs) of
         (resp, d', tr) \<Rightarrow>
           tr = [] \<and> 400 \<le> status resp
           \<and> patients d' = patients d \<and> patients_plain d' = patients_plain d"
    unfolding r by simp
next
  obtain resp d' tr where r: "create_patient E d (JValue u) = (resp, d', tr)"
    by (cases "create_patient E d (JValue u)") auto
  note n = create_patient_not_object [OF _ r]
  have "400 \<le> status resp" using n(2) by auto
  with n(1,3,4)
  show "case create_patient E d (JValue u) of
         (resp, d', tr) \<Rightarrow>
           tr = [] \<and> 400 \<le> status resp
           \<and> patients d' = patients d \<and> patients_plain d' = patients_plain d"
    unfolding r by simp
qed

theorem required_fields_checked_before_gates_witness:
  "''bmi'' \<in> set required \<and> map_of [(''NIC'', PStr ''199012345V'')] ''bmi'' = None
   \<and> (case create_patient sample_env empty_db (JObject [(''NIC'', PStr ''199012345V'')]) of
         (resp, d', tr) \<Rightarrow> status resp = 400 \<and> d' = empty_db \<and> tr = [])
   \<and> bad_bmi_data \<noteq> [] \<and> missing_fields (lib sample_env) bad_bmi_data = []
   \<and> ''bmi'' \<in> set (feature_order sample_env)
   \<and> map_of bad_bmi_data ''bmi'' = Some (PStr ''abc'')
   \<and> coerce_feature (lib sample_env) ''bmi'' (PStr ''abc'') = Inl ''Invalid value for bmi: abc''
   \<and> (case create_patient sample_env empty_db (JObject bad_bmi_data) of
         (resp, d', tr) \<Rightarrow>
           tr = [Poisoning] \<and> 400 \<le> status resp \<and> status resp \<noteq> 403
           \<and> patients d' = [] \<and> patients_plain d' = [])
   \<and> sample_data \<noteq> [] \<and> missing_fields (lib poisoned_env) sample_data = []
   \<and> run_poisoning_check poisoned_env sample_data = Inr True
   \<and> (case create_patient poisoned_env empty_db (JObject sample_data) of
         (resp, d', tr) \<Rightarrow> status resp = 403 \<and> tr = [Poisoning])
   \<and> missing_fields (lib failing_poison_env) sample_data = []
   \<and> run_poisoning_check failing_poison_env sample_data =
        Inl ''Poisoning check failed: X has 7 features, but LogisticRegression is expecting 8 features as input.''
   \<and> (case create_patient failing_poison_env empty_db (JObject sample_data) of
         (resp, d', tr) \<Rightarrow> status resp = 500 \<and> tr = [Poisoning])
   \<and> missing_fields (lib sample_env) sample_data = []
   \<and> Extraction \<in> set (snd (snd (create_patient sample_env empty_db (JObject sample_data))))
   \<and> run_poisoning_check sample_env sample_data = Inr False
   \<and> coerce_all (lib sample_env) sample_data (feature_order sample_env)
        = Inr [1, 45, 0, 0, 27, 6, 140]"
proof -
  have h1: "''bmi'' \<in> set required
      \<and> (case map_of [(''NIC'', PStr ''199012345V'')] ''bmi'' of
            None \<Rightarrow> True
          | Some v \<Rightarrow> py_strip (py_str (lib sample_env) v) = [])"
    by (simp add: required_def)
  note c1 = required_fields_checked_before_gates
      [where f = "''bmi''" and data = "[(''NIC'', PStr ''199012345V'')]"
         and E = sample_env and d = empty_db,
       THEN conjunct1, THEN mp, OF h1]
  have h2: "bad_bmi_data \<noteq> [] \<and> missing_fields (lib sample_env) bad_bmi_data = []"
    by (simp add: sample_run)
  have h3: "''bmi'' \<in> set (feature_order sample_env)
      \<and> map_of bad_bmi_data ''bmi'' = Some (PStr ''abc'')
      \<and> coerce_feature (lib sample_env) ''bmi'' (PStr ''abc'') = Inl ''Invalid value for bmi: abc''"
    by (simp add: sample_store sample_bmi_order sample_bmi_value sample_bad_bmi)
  have g2: "run_poisoning_check sample_env bad_bmi_data = Inr False"
    by (simp add: sample_run)
  have c2: "case create_patient sample_env empty_db (JObject bad_bmi_data) of
         (resp, d', tr) \<Rightarrow>
           tr = [Poisoning] \<and> 400 \<le> status resp \<and> status resp \<noteq> 403
           \<and> patients d' = [] \<and> patients_plain d' = []"
    using required_fields_checked_before_gates
            [where g = "''bmi''" and w = "PStr ''abc''"
               and err = "''Invalid value for bmi: abc''"
               and data = bad_bmi_data and E = sample_env and d = empty_db,
             THEN conjunct2, THEN conjunct1, THEN mp, OF h2]
          h3 g2
    by (auto simp: empty_db_def split: prod.splits)
  have h4: "sample_data \<noteq> [] \<and> missing_fields (lib poisoned_env) sample_data = []"
    by (simp add: sample_run)
  have g4: "run_poisoning_check poisoned_env sample_data = Inr True"
    by (simp add: sample_run)
  have c4: "case create_patient poisoned_env empty_db (JObject sample_data) of
         (resp, d', tr) \<Rightarrow> status resp = 403 \<and> tr = [Poisoning]"
    using required_fields_checked_before_gates
            [where data = sample_data and E = poisoned_env and d = empty_db,
             THEN conjunct2, THEN conjunct1, THEN mp, OF h4]
          g4
    by (auto split: prod.splits)
  have h5: "sample_data \<noteq> [] \<and> missing_fields (lib failing_poison_env) sample_data = []"
    by (simp add: sample_run)
  have g5: "run_poisoning_check failing_poison_env sample_data =
        Inl ''Poisoning check failed: X has 7 features, but LogisticRegression is expecting 8 features as input.''"
    by (simp add: sample_run)
  have c5: "case create_patient failing_poison_env empty_db (JObject sample_data) of
         (resp, d', tr) \<Rightarrow> status resp = 500 \<and> tr = [Poisoning]"
    using required_fields_checked_before_gates
            [where data = sample_data and E = failing_poison_env and d = empty_db,
             THEN conjunct2, THEN conjunct1, THEN mp, OF h5]
          g5
    by (auto split: prod.splits)
  have h6: "sample_data \<noteq> [] \<and> missing_fields (lib sample_env) sample_data = []"
    by (simp add: sample_run)
  have g6: "Extraction \<in> set (snd (snd (create_patient sample_env empty_db (JObject sample_data))))"
    by (simp add: run_defs sample_run sample_get empty_db_def)
  obtain resp d' tr where
    r: "create_patient sample_env empty_db (JObject sample_data) = (resp, d', tr)"
    by (cases "create_patient sample_env empty_db (JObject sample_data)") auto
  from g6 have e6: "Extraction \<in> set tr"
    by (simp add: r)
  have c6: "run_poisoning_check sample_env sample_data = Inr False"
    using required_fields_checked_before_gates
            [where data = sample_data and E = sample_env and d = empty_db,
             THEN conjunct2, THEN conjunct1, THEN mp, OF h6]
          e6
    by (simp add: r)
  have c7: "coerce_all (lib sample_env) sample_data (feature_order sample_env)
        = Inr [1, 45, 0, 0, 27, 6, 140]"
    by (simp add: sample_run)
  have m: "map_of [(''NIC'', PStr ''199012345V'')] ''bmi'' = None"
    by simp
  from m c1 h2 h3 c2 h4 g4 c4 h5 g5 c5 h6 g6 c6 c7 show ?thesis
    by (simp add: required_def)
qed

text \<open>
  C8, as stated, fails: when the inserts into the audit log fail, the request still
  runs through all four stages and succeeds, and no entry at all is written.
\<close>

theorem audit_entry_missing_counterexample:
  "(case create_patient audit_down_env empty_db (JObject sample_data) of
      (resp, d', tr) \<Rightarrow>
        status resp = 201
        \<and> tr = [Poisoning, Extraction, Prediction, Persistence]
        \<and> security_logs d' = [])"
  by (simp add: run_defs sample_run sample_get empty_db_def)

text \<open>
  C8, amended. The audit log only grows. For every stage, the entries of that stage
  written during a request are never more than one and never more than the times the
  stage was entered; when every insert into the audit log succeeds they are exactly
  one for a stage that was entered and none for a stage that was not. (A failing insert
  is swallowed by \<open>log_security_event\<close> and leaves the stage without its entry.)
\<close>

theorem audit_one_entry_per_attempted_stage:
  "case create_patient E d req of
     (resp, d', tr) \<Rightarrow>
       (\<exists>new. security_logs d' = security_logs d @ new
          \<and> stage_entries s new \<le> count_list tr s
          \<and> count_list tr s \<le> 1
          \<and> ((\<forall>ev. audit_insert_ok E ev) \<longrightarrow> stage_entries s new = count_list tr s))"
proof -
  obtain resp d' tr where r: "create_patient E d req = (resp, d', tr)"
    by (cases "create_patient E d req") auto
  from create_patient_audit [OF r, of s] count_list_trace_le_1 [OF r, of s]
  show ?thesis unfolding r by (auto simp: audit_fits_def)
qed

theorem audit_one_entry_per_attempted_stage_witness:
  "(\<forall>ev. audit_insert_ok sample_env ev)
   \<and> (case create_patient sample_env empty_db (JObject sample_data) of
         (resp, d', tr) \<Rightarrow>
           tr = [Poisoning, Extraction, Prediction, Persistence]
           \<and> stage_entries Persistence (security_logs d') = 1
           \<and> count_list tr Persistence = 1)"
  using audit_one_entry_per_attempted_stage
          [where E = sample_env and d = empty_db and req = "JObject sample_data"
             and s = Persistence]
  by (simp add: run_defs sample_run sample_get empty_db_def stage_entries_def)

text \<open>
  C4 (what the code does). The sample identifier is submitted twice, the second time
  with another glucose level. The collection \<open>patients\<close> holds one document for the
  identifier's hash, with the latest values; \<open>patients_plain\<close> holds two summaries with
  that hash, since the summary is written by \<open>insert_one\<close>.
\<close>

theorem resubmission_duplicates_summary:
  "hash_text sample_lib (PStr ''199012345V'') = Inr (hexdigest (sample_digest ''199012345V''))
   \<and> (case create_patient sample_env empty_db (JObject sample_data) of
      (resp1, d1, tr1) \<Rightarrow>
        (case create_patient sample_env d1 (JObject second_data) of
           (resp2, d2, tr2) \<Rightarrow>
             status resp1 = 201 \<and> status resp2 = 201
             \<and> map NIC_Hashed (patients d2) = [hexdigest (sample_digest ''199012345V'')]
             \<and> map (\<lambda>doc. blood_glucose_level (document_medical doc)) (patients d2) = [PInt 180]
             \<and> map summary_NIC_Hashed (patients_plain d2) =
                 [Some (hexdigest (sample_digest ''199012345V'')),
                  Some (hexdigest (sample_digest ''199012345V''))]))"
  by (simp add: run_defs sample_run sample_get empty_db_def)

text \<open>
  C5 (what the code does). When the poisoning model raises, the entry
  \<open>poisoning_check_error\<close> is written with \<open>is_attack\<close> set and the answer is 500, but its
  body carries the text of the exception.
\<close>

theorem poisoning_error_leaks_exception_text:
  "(case create_patient failing_poison_env empty_db (JObject sample_data) of
      (resp, d', tr) \<Rightarrow>
        status resp = 500 \<and> tr = [Poisoning]
        \<and> map event_type (security_logs d') = [poisoning_check_error]
        \<and> map is_attack (security_logs d') = [True]
        \<and> map_of (body resp) ''error'' =
            Some (PStr (''Poisoning check failed: Poisoning check failed: ''
                        @ ''X has 7 features, but LogisticRegression is expecting 8 features as input.'')))"
  by (simp add: run_defs sample_run empty_db_def error_response_def)

text \<open>
  C9. For a request that passed the validation and both gates, with a model that has
  \<open>predict_proba\<close>: the vector is sent through the stored scaler (when there is one),
  and the label is 1 exactly when the probability of the positive class is at least
  0.5. All four stages are entered; a 201 answer reports "Diabetic" exactly in that
  case; and when the three encryptions and the update of the collection succeed, the
  answer is 201 and the document found under the identifier's hash carries that label.
\<close>

theorem prediction_label_at_half:
  assumes "data \<noteq> []" and "missing_fields (lib E) data = []"
    and "run_poisoning_check E data = Inr False"
    and "coerce_all (lib E) data (feature_order E) = Inr x"
    and "detect_attack E x = Inr (False, m)"
    and "(case scaler E of None \<Rightarrow> Inr x | Some transform \<Rightarrow> transform x) = Inr xs"
    and "model E = WithProba predict_proba" and "predict_proba xs = Inr prob"
    and "create_patient E d (JObject data) = (resp, d', tr)"
  shows "predict E x = Inr (if prob \<ge> 0.5 then 1 else 0, Some prob)
    \<and> tr = [Poisoning, Extraction, Prediction, Persistence]
    \<and> (status resp = 201 \<longrightarrow>
         map_of (body resp) ''prediction'' =
           Some (PStr (if prob \<ge> 0.5 then ''Diabetic'' else ''Non-Diabetic'')))
    \<and> (load_context E = Inr ctx \<and> patients_update_error E = None
         \<and> encrypt_vector (lib E) ctx (PStr (py_str (lib E) (dict_get data ''NIC'' PNone))) = Some ei
         \<and> encrypt_vector (lib E) ctx (dict_get data ''Name'' PNone) = Some en
         \<and> encrypt_vector (lib E) ctx (dict_get data ''Address'' (PStr [])) = Some ea
         \<longrightarrow>
         status resp = 201
         \<and> (\<exists>h doc. hash_text (lib E) (PStr (py_str (lib E) (dict_get data ''NIC'' PNone))) = Inr h
                \<and> find (\<lambda>dc. NIC_Hashed dc = h) (patients d') = Some doc
                \<and> diabetes (document_medical doc) = (if prob \<ge> 0.5 then 1 else 0)))"
proof -
  define pred :: int where "pred = (if prob \<ge> 0.5 then 1 else 0)"
  have p: "predict E x = Inr (pred, Some prob)"
    using assms(6-8) by (simp add: predict_def pred_def)
  obtain d0 where d0: "patients d0 = patients d"
    and run: "create_patient E d (JObject data) =
       (fst (save_record E d0 data pred), snd (save_record E d0 data pred),
        [Poisoning, Extraction, Prediction, Persistence])"
    using create_patient_pass [OF assms(1-5) p, of d] by blast
  have sr: "save_record E d0 data pred = (resp, d')"
    and tr: "tr = [Poisoning, Extraction, Prediction, Persistence]"
    using run assms(9) by (simp_all add: prod_eq_iff)
  have answer: "map_of (body resp) ''prediction'' =
           Some (PStr (if prob \<ge> 0.5 then ''Diabetic'' else ''Non-Diabetic''))"
    if created: "status resp = 201"
  proof -
    obtain d1 where "update_patient_record E d0 (build_record data pred) = Inr d1"
      using save_record_created [OF sr created] by blast
    from save_record_saved(2) [OF this sr] show ?thesis
      by (auto simp: pred_def)
  qed
  have stored: "status resp = 201
         \<and> (\<exists>h doc. hash_text (lib E) (PStr (py_str (lib E) (dict_get data ''NIC'' PNone))) = Inr h
                \<and> find (\<lambda>dc. NIC_Hashed dc = h) (patients d') = Some doc
                \<and> diabetes (document_medical doc) = pred)"
    if enc: "load_context E = Inr ctx \<and> patients_update_error E = None
         \<and> encrypt_vector (lib E) ctx (PStr (py_str (lib E) (dict_get data ''NIC'' PNone))) = Some ei
         \<and> encrypt_vector (lib E) ctx (dict_get data ''Name'' PNone) = Some en
         \<and> encrypt_vector (lib E) ctx (dict_get data ''Address'' (PStr [])) = Some ea"
  proof -
    from enc have e: "load_context E = Inr ctx" "patients_update_error E = None"
      "encrypt_vector (lib E) ctx (PStr (py_str (lib E) (dict_get data ''NIC'' PNone))) = Some ei"
      "encrypt_vector (lib E) ctx (dict_get data ''Name'' PNone) = Some en"
      "encrypt_vector (lib E) ctx (dict_get data ''Address'' (PStr [])) = Some ea"
      by simp_all
    from save_record_stored [OF e sr] obtain h where
      st: "status resp = 201"
      and h: "hash_text (lib E) (PStr (py_str (lib E) (dict_get data ''NIC'' PNone))) = Inr h"
      and pt: "patients d' =
             upsert h
               \<lparr>NIC_Hashed = h, NIC_Encrypted = ei, Name_Encrypted = en, Address_Encrypted = ea,
                document_medical = record_medical (build_record data pred)\<rparr>
               (patients d0)"
      by blast
    have "find (\<lambda>dc. NIC_Hashed dc = h) (patients d') =
            Some \<lparr>NIC_Hashed = h, NIC_Encrypted = ei, Name_Encrypted = en,
                  Address_Encrypted = ea,
                  document_medical = record_medical (build_record data pred)\<rparr>"
      by (simp add: pt find_upsert)
    with st h show ?thesis
      by (simp add: build_record_fields)
  qed
  from p answer stored tr show ?thesis
    unfolding pred_def by blast
qed

theorem prediction_label_at_half_witness:
  "sample_data \<noteq> [] \<and> missing_fields (lib sample_env) sample_data = []
   \<and> run_poisoning_check sample_env sample_data = Inr False
   \<and> coerce_all (lib sample_env) sample_data (feature_order sample_env)
       = Inr [1, 45, 0, 0, 27, 6, 140]
   \<and> detect_attack sample_env [1, 45, 0, 0, 27, 6, 140] = Inr (False, Finite 0)
   \<and> scaler sample_env = Some Inr
   \<and> model sample_env = WithProba (\<lambda>X. Inr 0.73)
   \<and> predict sample_env [1, 45, 0, 0, 27, 6, 140] = Inr (1, Some 0.73)
   \<and> status (fst (create_patient sample_env empty_db (JObject sample_data))) = 201
   \<and> map_of (body (fst (create_patient sample_env empty_db (JObject sample_data)))) ''prediction''
       = Some (PStr ''Diabetic'')
   \<and> hash_text sample_lib (PStr ''199012345V'') = Inr (hexdigest (sample_digest ''199012345V''))
   \<and> (\<exists>doc. find (\<lambda>dc. NIC_Hashed dc = hexdigest (sample_digest ''199012345V''))
               (patients (fst (snd (create_patient sample_env empty_db (JObject sample_data)))))
             = Some doc
          \<and> diabetes (document_medical doc) = 1)"
proof -
  have sc: "scaler sample_env = Some Inr" and md: "model sample_env = WithProba (\<lambda>X. Inr 0.73)"
    by (simp_all add: sample_env_def)
  have enc: "load_context sample_env = Inr ''public key context''
       \<and> patients_update_error sample_env = None
       \<and> encrypt_vector (lib sample_env) ''public key context''
           (PStr (py_str (lib sample_env) (dict_get sample_data ''NIC'' PNone))) = Some ''ciphertext''
       \<and> encrypt_vector (lib sample_env) ''public key context''
           (dict_get sample_data ''Name'' PNone) = Some ''ciphertext''
       \<and> encrypt_vector (lib sample_env) ''public key context''
           (dict_get sample_data ''Address'' (PStr [])) = Some ''ciphertext''"
    by (simp add: sample_store sample_get sample_encrypt)
  have scaled: "(case scaler sample_env of None \<Rightarrow> Inr [1, 45, 0, 0, 27, 6, 140]
                 | Some transform \<Rightarrow> transform [1, 45, 0, 0, 27, 6, 140])
                = Inr [1, 45, 0, 0, 27, 6, 140]"
    by (simp add: sc)
  have gates: "sample_data \<noteq> []" "missing_fields (lib sample_env) sample_data = []"
    "run_poisoning_check sample_env sample_data = Inr False"
    "coerce_all (lib sample_env) sample_data (feature_order sample_env)
       = Inr [1, 45, 0, 0, 27, 6, 140]"
    "detect_attack sample_env [1, 45, 0, 0, 27, 6, 140] = Inr (False, Finite 0)"
    by (simp_all add: sample_run)
  have run: "create_patient sample_env empty_db (JObject sample_data) =
          (fst (create_patient sample_env empty_db (JObject sample_data)),
           fst (snd (create_patient sample_env empty_db (JObject sample_data))),
           snd (snd (create_patient sample_env empty_db (JObject sample_data))))"
    by simp
  have hs: "hash_text (lib sample_env) (PStr (py_str (lib sample_env) (dict_get sample_data ''NIC'' PNone)))
              = Inr (hexdigest (sample_digest ''199012345V''))"
    by (simp add: sample_store sample_get sample_hash)
  from prediction_label_at_half
         [OF gates scaled md refl run,
          where ctx = "''public key context''" and ei = "''ciphertext''"
            and en = "''ciphertext''" and ea = "''ciphertext''"]
       enc hs
  have "status (fst (create_patient sample_env empty_db (JObject sample_data))) = 201
    \<and> map_of (body (fst (create_patient sample_env empty_db (JObject sample_data)))) ''prediction''
       = Some (PStr ''Diabetic'')
    \<and> (\<exists>doc. find (\<lambda>dc. NIC_Hashed dc = hexdigest (sample_digest ''199012345V''))
               (patients (fst (snd (create_patient sample_env empty_db (JObject sample_data)))))
             = Some doc
          \<and> diabetes (document_medical doc) = 1)"
    by auto
  with gates sc md show ?thesis
    by (simp add: sample_predict sample_hash)
qed

text \<open>
  C10, as stated, fails: for \<open>"NIC": 0\<close> the request succeeds, the encrypted record is
  keyed by the hash of \<open>"0"\<close>, and the summary's key is \<open>None\<close>, because the endpoint
  computes it under the guard \<open>if record.get("NIC")\<close>.
\<close>

theorem summary_key_counterexample:
  "hash_text sample_lib (PStr ''0'') = Inr (hexdigest (sample_digest ''0''))
   \<and> (case create_patient sample_env empty_db (JObject zero_nic_data) of
      (resp, d', tr) \<Rightarrow>
        status resp = 201
        \<and> map NIC_Hashed (patients d') = [hexdigest (sample_digest ''0'')]
        \<and> map summary_NIC_Hashed (patients_plain d') = [None])"
  by (simp add: run_defs sample_run sample_get empty_db_def str_int_small)

text \<open>
  C10, amended. For a successful submission whose NIC is truthy (a non-empty string, a
  number other than zero), the key of the summary written by the endpoint's inline hash
  is the key under which the codec upserts the encrypted record: the SHA-256 hex digest
  of the NIC's text, computed by \<open>hash_text\<close> on \<open>str(record["NIC"])\<close>.
\<close>

theorem summary_key_equals_record_key:
  assumes "create_patient E d (JObject data) = (resp, d', tr)" and "status resp = 201"
    and "py_truthy (dict_get data ''NIC'' PNone)"
  shows "\<exists>h. hash_text (lib E) (PStr (py_str (lib E) (dict_get data ''NIC'' PNone))) = Inr h
       \<and> (patients_plain d' = patients_plain d
          \<or> (\<exists>s. patients_plain d' = patients_plain d @ [s] \<and> summary_NIC_Hashed s = Some h))
       \<and> (patients d' = patients d
          \<or> (\<exists>doc. NIC_Hashed doc = h
                \<and> patients d' = upsert (NIC_Hashed doc) doc (patients d)))"
proof -
  obtain d0 pred where sr: "save_record E d0 data pred = (resp, d')"
    and d0: "patients d0 = patients d" "patients_plain d0 = patients_plain d"
    using create_patient_created [OF assms(1,2)] by blast
  obtain d1 where u: "update_patient_record E d0 (build_record data pred) = Inr d1"
    using save_record_created [OF sr assms(2)] by blast
  obtain h where h: "hash_text (lib E) (PStr (py_str (lib E) (dict_get data ''NIC'' PNone))) = Inr h"
    using update_patient_record_hash [OF u] by (auto simp: build_record_fields)
  have k: "summary_key (lib E) (dict_get data ''NIC'' PNone) = Some (Some h)"
    using summary_key_truthy [OF assms(3) h] .
  have plain: "patients_plain d' = patients_plain d
          \<or> (\<exists>s. patients_plain d' = patients_plain d @ [s] \<and> summary_NIC_Hashed s = Some h)"
    using save_record_saved(5) [OF u sr] k d0
    by (cases "plain_insert_ok E") simp_all
  have "patients d' = patients d1"
    using save_record_saved(3) [OF u sr] .
  then have enc: "patients d' = patients d
          \<or> (\<exists>doc. NIC_Hashed doc = h
                \<and> patients d' = upsert (NIC_Hashed doc) doc (patients d))"
    using update_patient_record_patients [OF u] h d0
    by (auto simp: build_record_fields)
  from h plain enc show ?thesis by blast
qed

theorem summary_key_equals_record_key_witness:
  "status (fst (create_patient sample_env empty_db (JObject sample_data))) = 201
   \<and> py_truthy (dict_get sample_data ''NIC'' PNone)
   \<and> hash_text sample_lib (PStr ''199012345V'') = Inr (hexdigest (sample_digest ''199012345V''))
   \<and> map summary_NIC_Hashed
        (patients_plain (fst (snd (create_patient sample_env empty_db (JObject sample_data)))))
       = [Some (hexdigest (sample_digest ''199012345V''))]
   \<and> map NIC_Hashed
        (patients (fst (snd (create_patient sample_env empty_db (JObject sample_data)))))
       = [hexdigest (sample_digest ''199012345V'')]"
proof -
  have run: "create_patient sample_env empty_db (JObject sample_data) =
          (fst (create_patient sample_env empty_db (JObject sample_data)),
           fst (snd (create_patient sample_env empty_db (JObject sample_data))),
           snd (snd (create_patient sample_env empty_db (JObject sample_data))))"
    by simp
  have ok: "status (fst (create_patient sample_env empty_db (JObject sample_data))) = 201"
    by (simp add: run_defs sample_run sample_get empty_db_def)
  have truthy: "py_truthy (dict_get sample_data ''NIC'' PNone)"
    by (simp add: sample_get)
  from summary_key_equals_record_key [OF run ok truthy] ok truthy
  show ?thesis
    by (simp add: run_defs sample_run sample_get empty_db_def)
qed


end
